theory Spec2Isabelle
  imports Complex_Main "HOL-Library.Char_ord" "HOL-Library.List_Lexorder"
begin

section \<open>Data model\<close>

text \<open>
  The embedding follows \<^verbatim>\<open>src/data_collection/data_collector.py\<close>.

  A pandas cell is a missing marker (\<open>NaN\<close>, \<open>None\<close>, \<open>NaT\<close>), a text, a number or a
  timestamp. Numbers are exact rationals: goals are integers, coordinates are decimal
  fractions, and no claim depends on rounding.
\<close>

datatype cell = NA | Str string | Num rat | Dt int int int

text \<open>
  A DataFrame is its ordered column index and its rows. A row gives a cell for every
  column name; only the names listed in \<open>columns\<close> are part of the table. The row index
  is the position in the list (\<open>ignore_index=True\<close>, and \<open>read_csv\<close> numbers rows from 0).
\<close>

record frame =
  columns :: "string list"
  rows :: "(string \<Rightarrow> cell) list"

text \<open>Exceptions of Python and pandas that the code can let escape.\<close>

datatype error =
    ValueError string
  | KeyError string
  | TypeError
  | ParserError

text \<open>Sequencing of fallible steps: the first exception ends the computation.\<close>

definition and_then :: "error + 'a \<Rightarrow> ('a \<Rightarrow> error + 'b) \<Rightarrow> error + 'b" where
  "and_then m f = (case m of Inl e \<Rightarrow> Inl e | Inr x \<Rightarrow> f x)"

fun traverse :: "('a \<Rightarrow> error + 'b) \<Rightarrow> 'a list \<Rightarrow> error + 'b list" where
  "traverse f [] = Inr []"
| "traverse f (x # xs) =
     (case f x of
        Inl e \<Rightarrow> Inl e
      | Inr y \<Rightarrow> (case traverse f xs of Inl e \<Rightarrow> Inl e | Inr ys \<Rightarrow> Inr (y # ys)))"

subsection \<open>Collaborators outside the source file\<close>

text \<open>
  \<open>requests.get\<close> either returns a response (status code and body) or raises a
  \<open>RequestException\<close> with a message.
\<close>

datatype response = Response int string | RequestException string

text \<open>
  One entry of \<^verbatim>\<open>assets.cities.cities\<close>. The table itself is not part of the source
  file, so it is a parameter; its entries are records of a name and two coordinates.
\<close>

record city =
  name :: string
  lat :: rat
  lon :: rat

text \<open>
  Everything the collector reads from outside: the remote archive, the CSV parser
  (\<open>pd.read_csv(..., on_bad_lines="skip")\<close>, which may raise on an unusable body), the
  day-first date parser behind \<open>pd.to_datetime\<close> on one non-missing cell, the city
  table, and the stream of 32-character \<open>uuid4().hex\<close> values, numbered by how many
  were drawn before.
\<close>

record env =
  http_get :: "string \<Rightarrow> response"
  read_csv :: "string \<Rightarrow> error + frame"
  parse_date :: "cell \<Rightarrow> (int \<times> int \<times> int) option"
  cities :: "string \<rightharpoonup> city"
  uuid4_hex :: "nat \<Rightarrow> string"

text \<open>
  The effects of the collector on the outside: the URLs requested, the lines printed,
  the files written, and the number of identifiers drawn so far.
\<close>

record world =
  requested :: "string list"
  printed :: "string list"
  written :: "(string \<times> frame) list"
  uuid_drawn :: nat

text \<open>The object: \<open>self.league\<close> and \<open>self.all_data\<close>.\<close>

record DataCollector =
  league :: string
  all_data :: "frame list"

definition init :: "string \<Rightarrow> DataCollector" where
  "init lg = \<lparr>league = lg, all_data = []\<rparr>"

section \<open>Python strings of integers\<close>

definition digit_char :: "nat \<Rightarrow> char" where
  "digit_char d = char_of (48 + d)"

function str_nat :: "nat \<Rightarrow> string" where
  "str_nat n = (if n < 10 then [digit_char n] else str_nat (n div 10) @ [digit_char (n mod 10)])"
  by pat_completeness auto
termination
  by (relation "measure id") auto

declare str_nat.simps [simp del]

text \<open>\<open>str(i)\<close> for a Python integer.\<close>

definition str_int :: "int \<Rightarrow> string" where
  "str_int i = (if i < 0 then CHR ''-'' # str_nat (nat (- i)) else str_nat (nat i))"

text \<open>The slice \<open>s[-2:]\<close>: the last two characters, or all of a shorter string.\<close>

definition last2 :: "string \<Rightarrow> string" where
  "last2 s = drop (length s - 2) s"

section \<open>Fetcher\<close>

definition invalid_league :: error where
  "invalid_league = ValueError ''Invalid league. Must be 'serie_a' or 'epl'.''"

definition construct_url :: "string \<Rightarrow> int \<Rightarrow> error + string" where
  "construct_url lg year =
     (if lg = ''serie_a'' then
        Inr (''https://www.football-data.co.uk/mmz4281/''
             @ last2 (str_int year) @ last2 (str_int (year + 1)) @ ''/I1.csv'')
      else if lg = ''epl'' then
        Inr (''https://www.football-data.co.uk/mmz4281/''
             @ last2 (str_int year) @ last2 (str_int (year + 1)) @ ''/E0.csv'')
      else Inl invalid_league)"

definition season_text :: "int \<Rightarrow> string" where
  "season_text year = str_int year @ ''/'' @ str_int (year + 1)"

definition log_request :: "string \<Rightarrow> world \<Rightarrow> world" where
  "log_request url w = w\<lparr>requested := requested w @ [url]\<rparr>"

definition print :: "string \<Rightarrow> world \<Rightarrow> world" where
  "print line w = w\<lparr>printed := printed w @ [line]\<rparr>"

text \<open>
  The body of the \<open>for year in range(year_start, year_end + 1)\<close> loop of
  \<open>collect_data\<close>, over the list of years still to visit. The result is the exception
  that left the loop, if any, with \<open>self.all_data\<close> and the outside as they are then.
\<close>

fun fetch_loop ::
  "env \<Rightarrow> string \<Rightarrow> int list \<Rightarrow> frame list \<Rightarrow> world \<Rightarrow> error option \<times> frame list \<times> world" where
  "fetch_loop e lg [] acc w = (None, acc, w)"
| "fetch_loop e lg (year # years) acc w =
     (case construct_url lg year of
        Inl err \<Rightarrow> (Some err, acc, w)
      | Inr url \<Rightarrow>
          (case http_get e url of
             RequestException m \<Rightarrow>
               fetch_loop e lg years acc
                 (print (''Request failed for season '' @ season_text year @ '': '' @ m)
                    (log_request url w))
           | Response status_code body \<Rightarrow>
               if status_code = 200 then
                 (case read_csv e body of
                    Inl err \<Rightarrow> (Some err, acc, log_request url w)
                  | Inr df \<Rightarrow> fetch_loop e lg years (acc @ [df]) (log_request url w))
               else
                 fetch_loop e lg years acc
                   (print (''Data for season '' @ season_text year
                           @ '' not found or could not be retrieved.'')
                      (log_request url w))))"

section \<open>Table operations of pandas used by the transformer\<close>

text \<open>\<open>len(df)\<close>: the number of rows.\<close>

definition len :: "frame \<Rightarrow> nat" where
  "len df = length (rows df)"

text \<open>\<open>df[name]\<close>: the cells of one column, or \<open>KeyError\<close>.\<close>

definition getitem :: "frame \<Rightarrow> string \<Rightarrow> error + cell list" where
  "getitem df c = (if c \<in> set (columns df) then Inr (map (\<lambda>r. r c) (rows df)) else Inl (KeyError c))"

text \<open>Column names in order of first appearance (the outer join of \<open>pd.concat\<close>, unsorted).\<close>

fun first_seen :: "string list \<Rightarrow> string list \<Rightarrow> string list" where
  "first_seen seen [] = []"
| "first_seen seen (c # cs) =
     (if c \<in> set seen then first_seen seen cs else c # first_seen (c # seen) cs)"

text \<open>A row of one table seen from the merged table: missing outside the table's columns.\<close>

definition restrict_row :: "string list \<Rightarrow> (string \<Rightarrow> cell) \<Rightarrow> string \<Rightarrow> cell" where
  "restrict_row cs r = (\<lambda>c. if c \<in> set cs then r c else NA)"

text \<open>\<open>pd.concat(frames, ignore_index=True)\<close>; pandas raises on an empty list.\<close>

definition pd_concat :: "frame list \<Rightarrow> error + frame" where
  "pd_concat fs =
     (if fs = [] then Inl (ValueError ''No objects to concatenate'')
      else Inr \<lparr>columns = first_seen [] (concat (map columns fs)),
                rows = concat (map (\<lambda>f. map (restrict_row (columns f)) (rows f)) fs)\<rparr>)"

text \<open>
  One keyword of \<open>df.assign\<close>: an existing column is replaced where it stands, a new
  one is added last. Every call below passes one value per row.
\<close>

definition assign :: "string \<Rightarrow> cell list \<Rightarrow> frame \<Rightarrow> frame" where
  "assign c vals df =
     \<lparr>columns = (if c \<in> set (columns df) then columns df else columns df @ [c]),
      rows = map (\<lambda>(r, v). r(c := v)) (zip (rows df) vals)\<rparr>"

text \<open>\<open>df.dropna(how="all", axis=1)\<close>: keep the columns with a cell that is not missing.\<close>

definition dropna_all :: "frame \<Rightarrow> frame" where
  "dropna_all df = df\<lparr>columns := filter (\<lambda>c. list_ex (\<lambda>r. r c \<noteq> NA) (rows df)) (columns df)\<rparr>"

text \<open>\<open>df[cols]\<close> with a list of names: \<open>KeyError\<close> on the first name that is no column.\<close>

definition select :: "frame \<Rightarrow> string list \<Rightarrow> error + frame" where
  "select df cols =
     (case filter (\<lambda>c. c \<notin> set (columns df)) cols of
        [] \<Rightarrow> Inr (df\<lparr>columns := cols\<rparr>)
      | c # _ \<Rightarrow> Inl (KeyError c))"

text \<open>
  \<open>a + b\<close> on two cells of a Series sum: numbers add, texts concatenate, a missing
  cell on either side makes the sum missing, and any other pair is a \<open>TypeError\<close>.
\<close>

fun cell_add :: "cell \<Rightarrow> cell \<Rightarrow> error + cell" where
  "cell_add (Num a) (Num b) = Inr (Num (a + b))"
| "cell_add (Str a) (Str b) = Inr (Str (a @ b))"
| "cell_add NA y = Inr NA"
| "cell_add x NA = Inr NA"
| "cell_add x y = Inl TypeError"

definition series_add :: "cell list \<Rightarrow> cell list \<Rightarrow> error + cell list" where
  "series_add xs ys = traverse (\<lambda>(x, y). cell_add x y) (zip xs ys)"

text \<open>
  \<open>pd.to_datetime(series, dayfirst=True)\<close>: a missing cell becomes \<open>NaT\<close>, a timestamp
  stays, anything else is parsed or raises.
\<close>

fun to_datetime1 :: "env \<Rightarrow> cell \<Rightarrow> error + cell" where
  "to_datetime1 e NA = Inr NA"
| "to_datetime1 e (Dt y m d) = Inr (Dt y m d)"
| "to_datetime1 e x =
     (case parse_date e x of
        None \<Rightarrow> Inl (ValueError ''Unknown datetime string format'')
      | Some (y, m, d) \<Rightarrow> Inr (Dt y m d))"

definition to_datetime :: "env \<Rightarrow> cell list \<Rightarrow> error + cell list" where
  "to_datetime e xs = traverse (to_datetime1 e) xs"

section \<open>Transformer\<close>

text \<open>
  One element of the \<open>season\<close> list comprehension. For \<open>NaT\<close> both \<open>date.year\<close> and
  \<open>date.month\<close> are \<open>nan\<close>, the comparison \<open>nan >= 8\<close> is false and the second format
  string prints \<open>nan/nan\<close>.
\<close>

fun season :: "cell \<Rightarrow> cell" where
  "season (Dt y m d) =
     Str (if m \<ge> 8 then str_int y @ ''/'' @ str_int (y + 1)
          else str_int (y - 1) @ ''/'' @ str_int y)"
| "season _ = Str ''nan/nan''"

text \<open>The three lambdas mapped over \<open>all_data_df["HomeTeam"]\<close>.\<close>

fun city_lookup :: "env \<Rightarrow> (city \<Rightarrow> cell) \<Rightarrow> cell \<Rightarrow> cell" where
  "city_lookup e field (Str x) = (case cities e x of None \<Rightarrow> NA | Some c \<Rightarrow> field c)"
| "city_lookup e field _ = NA"

text \<open>\<open>[uuid.uuid4().hex[:8] for _ in range(n)]\<close>, after \<open>k\<close> earlier draws.\<close>

definition game_ids :: "env \<Rightarrow> nat \<Rightarrow> nat \<Rightarrow> cell list" where
  "game_ids e k n = map (\<lambda>i. Str (take 8 (uuid4_hex e (k + i)))) [0..<n]"

text \<open>
  The \<open>assign(...).dropna(how="all", axis=1)\<close> expression on the concatenated table.
  Python evaluates the keyword arguments first, in order (\<open>game_id\<close>, \<open>TG\<close> and the
  three city columns read the table as concatenated); \<open>assign\<close> then sets the columns
  in order and calls the \<open>Date\<close> and \<open>season\<close> lambdas on the table as it is by then.
\<close>

definition derive :: "env \<Rightarrow> string \<Rightarrow> nat \<Rightarrow> frame \<Rightarrow> error + frame" where
  "derive e lg k df =
     (let ids = game_ids e k (len df) in
      and_then (getitem df ''FTHG'') (\<lambda>fthg.
      and_then (getitem df ''FTAG'') (\<lambda>ftag.
      and_then (series_add fthg ftag) (\<lambda>tg.
      and_then (getitem df ''HomeTeam'') (\<lambda>home.
      let df1 = assign ''Div'' (replicate (len df) (Str lg)) df in
      and_then (getitem df1 ''Date'') (\<lambda>raw.
      and_then (to_datetime e raw) (\<lambda>dates.
      let df2 = assign ''Date'' dates df1 in
      and_then (getitem df2 ''Date'') (\<lambda>col.
      and_then (to_datetime e col) (\<lambda>ds.
      let df3 = assign ''season'' (map season ds) df2;
          df4 = assign ''game_id'' ids df3;
          df5 = assign ''TG'' tg df4;
          df6 = assign ''city_name'' (map (city_lookup e (\<lambda>c. Str (name c))) home) df5;
          df7 = assign ''lat'' (map (city_lookup e (\<lambda>c. Num (lat c))) home) df6;
          df8 = assign ''lon'' (map (city_lookup e (\<lambda>c. Num (lon c))) home) df7
      in Inr (dropna_all df8))))))))))"

text \<open>The list \<open>cols\<close> built from the columns of the derived table.\<close>

definition reorder :: "string list \<Rightarrow> string list" where
  "reorder cs =
     [''game_id'']
     @ take 3 (filter (\<lambda>c. c \<notin> set [''game_id'', ''TG'']) cs)
     @ [''TG'']
     @ drop 3 (filter (\<lambda>c. c \<notin> set [''game_id'', ''TG'', ''TG'']) cs)"

text \<open>\<open>_process_data\<close>: the result or the exception, and the outside afterwards.\<close>

definition process_data ::
  "env \<Rightarrow> DataCollector \<Rightarrow> world \<Rightarrow> bool \<Rightarrow> (error + frame) \<times> world" where
  "process_data e self w write_csv =
     (case pd_concat (all_data self) of
        Inl err \<Rightarrow> (Inl err, w)
      | Inr all_data_df \<Rightarrow>
          (let w1 = w\<lparr>uuid_drawn := uuid_drawn w + len all_data_df\<rparr> in
           case and_then (derive e (league self) (uuid_drawn w) all_data_df)
                  (\<lambda>df. select df (reorder (columns df))) of
             Inl err \<Rightarrow> (Inl err, w1)
           | Inr df \<Rightarrow>
               if write_csv then
                 (let filename = league self @ ''.csv'' in
                  (Inr df, print (''Data written to '' @ filename)
                             (w1\<lparr>written := written w1 @ [(filename, df)]\<rparr>)))
               else (Inr df, w1)))"

text \<open>
  \<open>collect_data(year_start, year_end, write_csv)\<close>: the returned table or the exception
  raised, the collector afterwards and the outside afterwards.
  \<open>range(year_start, year_end + 1)\<close> is the list \<open>[year_start..year_end]\<close>.
\<close>

definition collect_data ::
  "env \<Rightarrow> DataCollector \<Rightarrow> world \<Rightarrow> int \<Rightarrow> int \<Rightarrow> bool
   \<Rightarrow> (error + frame) \<times> DataCollector \<times> world" where
  "collect_data e self w year_start year_end write_csv =
     (case fetch_loop e (league self) [year_start..year_end] (all_data self) w of
        (Some err, acc, w1) \<Rightarrow> (Inl err, self\<lparr>all_data := acc\<rparr>, w1)
      | (None, acc, w1) \<Rightarrow>
          (let self1 = self\<lparr>all_data := acc\<rparr> in
           case process_data e self1 w1 write_csv of
             (res, w2) \<Rightarrow> (res, self1, w2)))"

section \<open>Team statistics\<close>

text \<open>
  The value of a pandas division of two numbers: dividing by zero raises nothing, it
  gives \<open>NaN\<close> for \<open>0/0\<close> and a signed infinity otherwise.
\<close>

datatype ratio = NaN | PosInf | NegInf | Fin rat

definition true_div :: "rat \<Rightarrow> rat \<Rightarrow> ratio" where
  "true_div a b =
     (if b = 0 then (if a = 0 then NaN else if 0 < a then PosInf else NegInf)
      else Fin (a / b))"

text \<open>One row of the returned statistics table, with its columns in order.\<close>

record team_stats =
  Team :: string
  HomeGames :: nat
  HomeWins :: nat
  HomeDraws :: nat
  HomeGoals :: rat
  AwayGames :: nat
  AwayWins :: nat
  AwayDraws :: nat
  AwayGoals :: rat
  TotalGames :: nat
  TotalWins :: nat
  TotalDraws :: nat
  TotalGoals :: rat
  WinRatio :: ratio
  DrawRatio :: ratio
  HomeWinRatio :: ratio
  AwayWinRatio :: ratio
  HomeGoalRatio :: ratio
  AwayGoalRatio :: ratio
  TotalGoalRatio :: ratio

text \<open>
  The model covers the tables the archive gives: a team column holds texts and missing
  cells, a goals column holds numbers and missing cells. On another cell the model
  stops with \<open>TypeError\<close>.
\<close>

fun is_text :: "cell \<Rightarrow> bool" where
  "is_text NA = True"
| "is_text (Str s) = True"
| "is_text _ = False"

fun is_number :: "cell \<Rightarrow> bool" where
  "is_number NA = True"
| "is_number (Num q) = True"
| "is_number _ = False"

definition typed :: "(cell \<Rightarrow> bool) \<Rightarrow> cell list \<Rightarrow> error + unit" where
  "typed p xs = (if list_all p xs then Inr () else Inl TypeError)"

text \<open>The group keys of \<open>groupby\<close>: the distinct non-missing values, sorted.\<close>

fun texts :: "cell list \<Rightarrow> string list" where
  "texts [] = []"
| "texts (Str s # xs) = s # texts xs"
| "texts (_ # xs) = texts xs"

definition group_keys :: "string \<Rightarrow> frame \<Rightarrow> string list" where
  "group_keys key df = sort (remdups (texts (map (\<lambda>r. r key) (rows df))))"

definition group_rows :: "string \<Rightarrow> string \<Rightarrow> frame \<Rightarrow> (string \<Rightarrow> cell) list" where
  "group_rows key t df = filter (\<lambda>r. r key = Str t) (rows df)"

text \<open>\<open>(x == v).sum()\<close> on the column \<open>c\<close> of a group.\<close>

definition count_eq :: "string \<Rightarrow> string \<Rightarrow> (string \<Rightarrow> cell) list \<Rightarrow> nat" where
  "count_eq c v g = length (filter (\<lambda>r. r c = Str v) g)"

text \<open>The aggregation \<open>'sum'\<close> on the column \<open>c\<close> of a group: missing cells are skipped.\<close>

fun number :: "cell \<Rightarrow> rat" where
  "number (Num q) = q"
| "number _ = 0"

definition sum_col :: "string \<Rightarrow> (string \<Rightarrow> cell) list \<Rightarrow> rat" where
  "sum_col c g = sum_list (map (\<lambda>r. number (r c)) g)"

text \<open>
  \<open>home_stats\<close> and \<open>away_stats\<close>: one entry per group key with games, wins, draws and
  goals. \<open>'count'\<close> on the key column counts every row of the group.
\<close>

definition home_stats :: "frame \<Rightarrow> (string \<times> nat \<times> nat \<times> nat \<times> rat) list" where
  "home_stats df =
     map (\<lambda>t. let g = group_rows ''HomeTeam'' t df
              in (t, length g, count_eq ''FTR'' ''H'' g, count_eq ''FTR'' ''D'' g,
                  sum_col ''FTHG'' g))
       (group_keys ''HomeTeam'' df)"

definition away_stats :: "frame \<Rightarrow> (string \<times> nat \<times> nat \<times> nat \<times> rat) list" where
  "away_stats df =
     map (\<lambda>t. let g = group_rows ''AwayTeam'' t df
              in (t, length g, count_eq ''FTR'' ''A'' g, count_eq ''FTR'' ''D'' g,
                  sum_col ''FTAG'' g))
       (group_keys ''AwayTeam'' df)"

text \<open>A side of the outer merge after \<open>fillna(0)\<close>: a team absent from it has zeros.\<close>

definition side :: "(string \<times> nat \<times> nat \<times> nat \<times> rat) list \<Rightarrow> string \<Rightarrow> nat \<times> nat \<times> nat \<times> rat" where
  "side st t = (case map_of st t of None \<Rightarrow> (0, 0, 0, 0) | Some x \<Rightarrow> x)"

text \<open>The totals and the ratios of one merged row.\<close>

definition stats_row ::
  "string \<Rightarrow> nat \<times> nat \<times> nat \<times> rat \<Rightarrow> nat \<times> nat \<times> nat \<times> rat \<Rightarrow> team_stats" where
  "stats_row t h a =
     (case h of (h_games, h_wins, h_draws, h_goals) \<Rightarrow>
      case a of (a_games, a_wins, a_draws, a_goals) \<Rightarrow>
        (let t_games = h_games + a_games; t_wins = h_wins + a_wins;
             t_draws = h_draws + a_draws; t_goals = h_goals + a_goals in
         \<lparr>Team = t,
          HomeGames = h_games, HomeWins = h_wins, HomeDraws = h_draws, HomeGoals = h_goals,
          AwayGames = a_games, AwayWins = a_wins, AwayDraws = a_draws, AwayGoals = a_goals,
          TotalGames = t_games, TotalWins = t_wins, TotalDraws = t_draws,
          TotalGoals = t_goals,
          WinRatio = true_div (of_nat t_wins) (of_nat t_games),
          DrawRatio = true_div (of_nat t_draws) (of_nat t_games),
          HomeWinRatio = true_div (of_nat h_wins) (of_nat h_games),
          AwayWinRatio = true_div (of_nat a_wins) (of_nat a_games),
          HomeGoalRatio = true_div h_goals (of_nat h_games),
          AwayGoalRatio = true_div a_goals (of_nat a_games),
          TotalGoalRatio = true_div t_goals (of_nat t_games)\<rparr>))"

text \<open>
  \<open>compute_team_statistics(df)\<close>. The outer merge on the two indexes has the sorted
  union of the group keys as its index, which \<open>reset_index\<close> and \<open>rename\<close> turn into the
  column \<open>Team\<close>.
\<close>

definition compute_team_statistics :: "frame \<Rightarrow> error + team_stats list" where
  "compute_team_statistics df =
     and_then (getitem df ''HomeTeam'') (\<lambda>home.
     and_then (typed is_text home) (\<lambda>_.
     and_then (getitem df ''FTR'') (\<lambda>_.
     and_then (getitem df ''FTHG'') (\<lambda>fthg.
     and_then (typed is_number fthg) (\<lambda>_.
     and_then (getitem df ''AwayTeam'') (\<lambda>away.
     and_then (typed is_text away) (\<lambda>_.
     and_then (getitem df ''FTAG'') (\<lambda>ftag.
     and_then (typed is_number ftag) (\<lambda>_.
       let hs = home_stats df; aws = away_stats df in
       Inr (map (\<lambda>t. stats_row t (side hs t) (side aws t))
              (sort (remdups (map fst hs @ map fst aws)))))))))))))"

section \<open>A small archive for concrete runs\<close>

text \<open>
  Two matches of the 2019/2020 season: a home win of a team that the city table knows,
  and a goalless draw at a team that it does not know.
\<close>

definition match1 :: "string \<Rightarrow> cell" where
  "match1 =
     (\<lambda>c. NA)(''Date'' := Str ''17/08/2019'', ''HomeTeam'' := Str ''Arsenal'',
              ''AwayTeam'' := Str ''Burnley'', ''FTHG'' := Num 2, ''FTAG'' := Num 1,
              ''FTR'' := Str ''H'')"

definition match2 :: "string \<Rightarrow> cell" where
  "match2 =
     (\<lambda>c. NA)(''Date'' := Str ''01/02/2020'', ''HomeTeam'' := Str ''Unmapped FC'',
              ''AwayTeam'' := Str ''Arsenal'', ''FTHG'' := Num 0, ''FTAG'' := Num 0,
              ''FTR'' := Str ''D'')"

definition season_2019 :: frame where
  "season_2019 =
     \<lparr>columns = [''Date'', ''HomeTeam'', ''AwayTeam'', ''FTHG'', ''FTAG'', ''FTR''],
      rows = [match1, match2]\<rparr>"

text \<open>
  The archive serves that season of the English league and nothing else; the parser
  knows the two dates; an identifier repeats the last digit of its number.
\<close>

definition archive :: env where
  "archive =
     \<lparr>http_get = (\<lambda>url. if url = ''https://www.football-data.co.uk/mmz4281/1920/E0.csv''
                         then Response 200 ''Date,HomeTeam,AwayTeam,FTHG,FTAG,FTR''
                         else Response 404 ''Not Found''),
      read_csv = (\<lambda>body. Inr season_2019),
      parse_date = (\<lambda>x. if x = Str ''17/08/2019'' then Some (2019, 8, 17)
                         else if x = Str ''01/02/2020'' then Some (2020, 2, 1)
                         else None),
      cities = [''Arsenal'' \<mapsto> \<lparr>name = ''London'', lat = 5155 / 100, lon = - 11 / 100\<rparr>],
      uuid4_hex = (\<lambda>n. replicate 32 (digit_char (n mod 10)))\<rparr>"

definition world0 :: world where
  "world0 = \<lparr>requested = [], printed = [], written = [], uuid_drawn = 0\<rparr>"

section \<open>Notions used to state the properties\<close>

text \<open>
  The season tables that the loop of \<open>collect_data\<close> adds for a list of years: the
  tables of the years answered with status 200, up to the first year at which an
  exception leaves the loop.
\<close>

fun fetched :: "env \<Rightarrow> string \<Rightarrow> int list \<Rightarrow> frame list" where
  "fetched e lg [] = []"
| "fetched e lg (year # years) =
     (case construct_url lg year of
        Inl err \<Rightarrow> []
      | Inr url \<Rightarrow>
          (case http_get e url of
             RequestException m \<Rightarrow> fetched e lg years
           | Response status_code body \<Rightarrow>
               if status_code = 200 then
                 (case read_csv e body of
                    Inl err \<Rightarrow> []
                  | Inr df \<Rightarrow> df # fetched e lg years)
               else fetched e lg years))"

text \<open>The fetch of one year fails: no URL, a transport error, or a status other than 200.\<close>

definition fetch_fails :: "env \<Rightarrow> string \<Rightarrow> int \<Rightarrow> bool" where
  "fetch_fails e lg year =
     (case construct_url lg year of
        Inl err \<Rightarrow> True
      | Inr url \<Rightarrow>
          (case http_get e url of
             RequestException m \<Rightarrow> True
           | Response status_code body \<Rightarrow> status_code \<noteq> 200))"

text \<open>
  A caller making several \<open>collect_data\<close> calls on one collector, going on after a call
  that raised. Each call is its \<open>year_start\<close>, \<open>year_end\<close> and \<open>write_csv\<close>.
\<close>

fun collect_calls ::
  "env \<Rightarrow> DataCollector \<Rightarrow> world \<Rightarrow> (int \<times> int \<times> bool) list \<Rightarrow> DataCollector \<times> world" where
  "collect_calls e self w [] = (self, w)"
| "collect_calls e self w ((year_start, year_end, write_csv) # calls) =
     (case collect_data e self w year_start year_end write_csv of
        (res, self1, w1) \<Rightarrow> collect_calls e self1 w1 calls)"

text \<open>
  The derived table in closed form, for the proofs: its rows are the rows of the
  concatenated table with the eight assigned cells, each computed from the row itself
  and from the identifier drawn for it.
\<close>

definition tg_cell :: "(string \<Rightarrow> cell) \<Rightarrow> cell" where
  "tg_cell r = projr (cell_add (r ''FTHG'') (r ''FTAG''))"

definition date_cell :: "env \<Rightarrow> (string \<Rightarrow> cell) \<Rightarrow> cell" where
  "date_cell e r = projr (to_datetime1 e (r ''Date''))"

definition derived_row :: "env \<Rightarrow> string \<Rightarrow> (string \<Rightarrow> cell) \<times> cell \<Rightarrow> string \<Rightarrow> cell" where
  "derived_row e lg z =
     (fst z)(''Div'' := Str lg,
             ''Date'' := date_cell e (fst z),
             ''season'' := season (date_cell e (fst z)),
             ''game_id'' := snd z,
             ''TG'' := tg_cell (fst z),
             ''city_name'' := city_lookup e (\<lambda>c. Str (name c)) (fst z ''HomeTeam''),
             ''lat'' := city_lookup e (\<lambda>c. Num (lat c)) (fst z ''HomeTeam''),
             ''lon'' := city_lookup e (\<lambda>c. Num (lon c)) (fst z ''HomeTeam''))"

definition add_col :: "string \<Rightarrow> string list \<Rightarrow> string list" where
  "add_col c cs = (if c \<in> set cs then cs else cs @ [c])"

definition derived_columns :: "string list \<Rightarrow> string list" where
  "derived_columns cs =
     add_col ''lon'' (add_col ''lat'' (add_col ''city_name'' (add_col ''TG''
       (add_col ''game_id'' (add_col ''season'' (add_col ''Date'' (add_col ''Div'' cs)))))))"

definition derived :: "env \<Rightarrow> string \<Rightarrow> nat \<Rightarrow> frame \<Rightarrow> frame" where
  "derived e lg k df =
     dropna_all
       \<lparr>columns = derived_columns (columns df),
        rows = map (derived_row e lg) (zip (rows df) (game_ids e k (len df)))\<rparr>"

text \<open>The table can be derived: the four columns read exist, and every row adds and parses.\<close>

definition derivable :: "env \<Rightarrow> frame \<Rightarrow> bool" where
  "derivable e df =
     (list_all (\<lambda>c. c \<in> set (columns df)) [''FTHG'', ''FTAG'', ''HomeTeam'', ''Date'']
      \<and> list_all (\<lambda>r. \<not> isl (cell_add (r ''FTHG'') (r ''FTAG''))
                       \<and> \<not> isl (to_datetime1 e (r ''Date''))) (rows df))"

text \<open>The exception of the derivation when the table cannot be derived.\<close>

definition derive_error :: "env \<Rightarrow> frame \<Rightarrow> error" where
  "derive_error e df =
     (if ''FTHG'' \<notin> set (columns df) then KeyError ''FTHG''
      else if ''FTAG'' \<notin> set (columns df) then KeyError ''FTAG''
      else if \<not> list_all (\<lambda>r. \<not> isl (cell_add (r ''FTHG'') (r ''FTAG''))) (rows df) then TypeError
      else if ''HomeTeam'' \<notin> set (columns df) then KeyError ''HomeTeam''
      else if ''Date'' \<notin> set (columns df) then KeyError ''Date''
      else ValueError ''Unknown datetime string format'')"

text \<open>The table that \<open>pd.concat\<close> gives for a list of tables that is not empty.\<close>

definition merged :: "frame list \<Rightarrow> frame" where
  "merged fs =
     \<lparr>columns = first_seen [] (concat (map columns fs)),
      rows = concat (map (\<lambda>f. map (restrict_row (columns f)) (rows f)) fs)\<rparr>"

text \<open>A table without its \<open>game_id\<close> column.\<close>

definition without_game_id :: "frame \<Rightarrow> frame" where
  "without_game_id df =
     \<lparr>columns = filter (\<lambda>c. c \<noteq> ''game_id'') (columns df),
      rows = map (\<lambda>r. r(''game_id'' := NA)) (rows df)\<rparr>"

text \<open>A first call on a new collector for the English league, for the 2019/2020 season.\<close>

definition first_call :: "(error + frame) \<times> DataCollector \<times> world" where
  "first_call = collect_data archive (init ''epl'') world0 2019 2019 False"

text \<open>The table of one year when its fetch succeeds: status 200 and a body that parses.\<close>

definition season_table :: "env \<Rightarrow> string \<Rightarrow> int \<Rightarrow> frame option" where
  "season_table e lg year =
     (case construct_url lg year of
        Inl err \<Rightarrow> None
      | Inr url \<Rightarrow>
          (case http_get e url of
             RequestException m \<Rightarrow> None
           | Response status_code body \<Rightarrow>
               if status_code = 200 then
                 (case read_csv e body of Inl err \<Rightarrow> None | Inr df \<Rightarrow> Some df)
               else None))"

text \<open>
  A table on which the statistics are computed: the five columns read are there, the two
  team columns hold texts and the two goals columns hold numbers (or missing cells).
\<close>

definition statistics_input :: "frame \<Rightarrow> bool" where
  "statistics_input df =
     (list_all (\<lambda>c. c \<in> set (columns df)) [''HomeTeam'', ''FTR'', ''FTHG'', ''AwayTeam'', ''FTAG'']
      \<and> list_all (\<lambda>r. is_text (r ''HomeTeam'') \<and> is_text (r ''AwayTeam'')
                       \<and> is_number (r ''FTHG'') \<and> is_number (r ''FTAG'')) (rows df))"

text \<open>The statistics rows, one for each name of the sorted union of the group keys.\<close>

definition statistics_rows :: "frame \<Rightarrow> team_stats list" where
  "statistics_rows df =
     map (\<lambda>t. stats_row t (side (home_stats df) t) (side (away_stats df) t))
       (sort (remdups (map fst (home_stats df) @ map fst (away_stats df))))"

text \<open>A ratio that is a number between 0 and 1.\<close>

fun in_unit :: "ratio \<Rightarrow> bool" where
  "in_unit (Fin q) = (0 \<le> q \<and> q \<le> 1)"
| "in_unit _ = False"

text \<open>The statistics of the two matches of \<open>season_2019\<close>.\<close>

definition arsenal_2019 :: team_stats where
  "arsenal_2019 =
     \<lparr>Team = ''Arsenal'', HomeGames = 1, HomeWins = 1, HomeDraws = 0, HomeGoals = 2,
      AwayGames = 1, AwayWins = 0, AwayDraws = 1, AwayGoals = 0,
      TotalGames = 2, TotalWins = 1, TotalDraws = 1, TotalGoals = 2,
      WinRatio = Fin (1 / 2), DrawRatio = Fin (1 / 2), HomeWinRatio = Fin 1,
      AwayWinRatio = Fin 0, HomeGoalRatio = Fin 2, AwayGoalRatio = Fin 0,
      TotalGoalRatio = Fin 1\<rparr>"

definition burnley_2019 :: team_stats where
  "burnley_2019 =
     \<lparr>Team = ''Burnley'', HomeGames = 0, HomeWins = 0, HomeDraws = 0, HomeGoals = 0,
      AwayGames = 1, AwayWins = 0, AwayDraws = 0, AwayGoals = 1,
      TotalGames = 1, TotalWins = 0, TotalDraws = 0, TotalGoals = 1,
      WinRatio = Fin 0, DrawRatio = Fin 0, HomeWinRatio = NaN,
      AwayWinRatio = Fin 0, HomeGoalRatio = NaN, AwayGoalRatio = Fin 1,
      TotalGoalRatio = Fin 1\<rparr>"

definition unmapped_2019 :: team_stats where
  "unmapped_2019 =
     \<lparr>Team = ''Unmapped FC'', HomeGames = 1, HomeWins = 0, HomeDraws = 1, HomeGoals = 0,
      AwayGames = 0, AwayWins = 0, AwayDraws = 0, AwayGoals = 0,
      TotalGames = 1, TotalWins = 0, TotalDraws = 1, TotalGoals = 0,
      WinRatio = Fin 0, DrawRatio = Fin 1, HomeWinRatio = Fin 0,
      AwayWinRatio = NaN, HomeGoalRatio = Fin 0, AwayGoalRatio = NaN,
      TotalGoalRatio = Fin 0\<rparr>"

text \<open>
  A season file with a line that holds separators only: \<open>read_csv\<close> gives a row in
  which every cell is missing.
\<close>

definition blank_row :: "string \<Rightarrow> cell" where
  "blank_row = (\<lambda>c. NA)"

definition season_with_blank :: frame where
  "season_with_blank =
     \<lparr>columns = [''Date'', ''HomeTeam'', ''AwayTeam'', ''FTHG'', ''FTAG'', ''FTR''],
      rows = [match1, blank_row]\<rparr>"

section \<open>Properties of the fetcher\<close>

lemma fetch_loop_acc:
  "fetch_loop e lg years acc w = (r, acc', w') \<Longrightarrow> acc' = acc @ fetched e lg years"
proof (induction years arbitrary: acc w)
  case Nil
  then show ?case by simp
next
  case (Cons year years)
  show ?case
  proof (cases "construct_url lg year")
    case (Inl err)
    with Cons.prems show ?thesis by simp
  next
    case (Inr url)
    show ?thesis
    proof (cases "http_get e url")
      case (RequestException m)
      with Inr Cons.prems Cons.IH show ?thesis by simp
    next
      case (Response status_code body)
      show ?thesis
      proof (cases "status_code = 200")
        case False
        with Response Inr Cons.prems Cons.IH show ?thesis by simp
      next
        case True
        show ?thesis
        proof (cases "read_csv e body")
          case (Inl err)
          with True Response Inr Cons.prems show ?thesis by simp
        next
          case ok: (Inr df)
          with True Response Inr Cons.prems
          have "fetch_loop e lg years (acc @ [df]) (log_request url w) = (r, acc', w')"
            by simp
          then have "acc' = (acc @ [df]) @ fetched e lg years"
            by (rule Cons.IH)
          with ok True Response Inr show ?thesis by simp
        qed
      qed
    qed
  qed
qed

lemma fetch_loop_fails:
  "\<forall>year \<in> set years. fetch_fails e lg year \<Longrightarrow>
   fst (fetch_loop e lg years acc w) \<in> {None, Some invalid_league}
   \<and> fst (snd (fetch_loop e lg years acc w)) = acc"
proof (induction years arbitrary: w)
  case Nil
  then show ?case by simp
next
  case (Cons year years)
  then have f: "fetch_fails e lg year" and rest: "\<forall>year \<in> set years. fetch_fails e lg year"
    by simp_all
  note IH = Cons.IH [OF rest]
  show ?case
  proof (cases "construct_url lg year")
    case (Inl err)
    then have "err = invalid_league"
      by (simp add: construct_url_def split: if_splits)
    with Inl show ?thesis by simp
  next
    case (Inr url)
    show ?thesis
    proof (cases "http_get e url")
      case (RequestException m)
      with Inr IH show ?thesis by simp
    next
      case (Response status_code body)
      with f Inr have "status_code \<noteq> 200" by (simp add: fetch_fails_def)
      with Response Inr IH show ?thesis by simp
    qed
  qed
qed

lemma process_data_empty:
  "all_data self = [] \<Longrightarrow>
   process_data e self w write_csv = (Inl (ValueError ''No objects to concatenate''), w)"
  by (simp add: process_data_def pd_concat_def)

text \<open>
  C8. With a league other than \<open>serie_a\<close> and \<open>epl\<close> and a range that is not reversed,
  \<open>collect_data\<close> raises the invalid-league \<open>ValueError\<close> on the first iteration: the
  collector is unchanged, and the outside is unchanged, so no request was sent, nothing
  was printed or written, and no table is returned.
\<close>

theorem C8_invalid_league_raises_first:
  assumes "league self \<noteq> ''serie_a''" and "league self \<noteq> ''epl''"
    and "year_start \<le> year_end"
  shows "collect_data e self w year_start year_end write_csv = (Inl invalid_league, self, w)"
proof -
  have "[year_start..year_end] = year_start # [year_start + 1..year_end]"
    using assms(3) by (simp add: upto_rec1)
  then have "fetch_loop e (league self) [year_start..year_end] (all_data self) w
             = (Some invalid_league, all_data self, w)"
    using assms(1,2) by (simp add: construct_url_def)
  then show ?thesis
    by (simp add: collect_data_def)
qed

theorem C8_witness:
  "league (init ''la_liga'') \<noteq> ''serie_a'' \<and> league (init ''la_liga'') \<noteq> ''epl''
   \<and> (2019::int) \<le> 2021
   \<and> collect_data archive (init ''la_liga'') world0 2019 2021 True
       = (Inl invalid_league, init ''la_liga'', world0)"
  using C8_invalid_league_raises_first [of "init ''la_liga''" 2019 2021 archive world0 True]
  by (simp add: init_def)

section \<open>The transformer in closed form\<close>

lemma traverse_Inr:
  "traverse f xs = Inr ys \<longleftrightarrow> (list_all (\<lambda>x. \<not> isl (f x)) xs \<and> ys = map (\<lambda>x. projr (f x)) xs)"
proof (induction xs arbitrary: ys)
  case Nil
  then show ?case by auto
next
  case (Cons x xs)
  show ?case
  proof (cases "f x")
    case (Inl err)
    then show ?thesis by simp
  next
    case fx: (Inr y)
    show ?thesis
    proof (cases "traverse f xs")
      case (Inl err)
      with fx Cons.IH show ?thesis by auto
    next
      case (Inr zs)
      with fx Cons.IH [of zs] show ?thesis by auto
    qed
  qed
qed

lemma traverse_Inl:
  "(\<exists>err. traverse f xs = Inl err) \<longleftrightarrow> \<not> list_all (\<lambda>x. \<not> isl (f x)) xs"
  using traverse_Inr [of f xs] by (cases "traverse f xs") auto

lemma assign_map:
  "assign c (map v zs) \<lparr>columns = cs, rows = map h zs\<rparr>
   = \<lparr>columns = add_col c cs, rows = map (\<lambda>z. (h z)(c := v z)) zs\<rparr>"
  by (simp add: assign_def add_col_def zip_map_map zip_same_conv_map)

lemma to_datetime1_shape:
  "to_datetime1 e x = Inr y \<Longrightarrow> to_datetime1 e y = Inr y"
  by (cases x) (auto split: option.splits)

lemma to_datetime1_again:
  "\<not> isl (to_datetime1 e x) \<Longrightarrow> to_datetime1 e (projr (to_datetime1 e x)) = Inr (projr (to_datetime1 e x))"
  by (cases "to_datetime1 e x") (auto dest: to_datetime1_shape)


lemma traverse_map: "traverse f (map g xs) = traverse (\<lambda>x. f (g x)) xs"
  by (induction xs) (auto split: sum.splits)

lemma getitem_rows:
  "c \<in> set cs \<Longrightarrow> getitem \<lparr>columns = cs, rows = map h zs\<rparr> c = Inr (map (\<lambda>z. h z c) zs)"
  by (simp add: getitem_def)

lemma series_add_map:
  "list_all (\<lambda>z. \<not> isl (cell_add (a z) (b z))) zs \<Longrightarrow>
   series_add (map a zs) (map b zs) = Inr (map (\<lambda>z. projr (cell_add (a z) (b z))) zs)"
  by (simp add: series_add_def zip_map_map zip_same_conv_map traverse_map traverse_Inr)

lemma to_datetime_map:
  "list_all (\<lambda>z. \<not> isl (to_datetime1 e (a z))) zs \<Longrightarrow>
   to_datetime e (map a zs) = Inr (map (\<lambda>z. projr (to_datetime1 e (a z))) zs)"
  by (simp add: to_datetime_def traverse_map traverse_Inr)

lemma to_datetime_twice:
  "list_all (\<lambda>z. \<not> isl (to_datetime1 e (a z))) zs \<Longrightarrow>
   to_datetime e (map (\<lambda>z. projr (to_datetime1 e (a z))) zs)
   = Inr (map (\<lambda>z. projr (to_datetime1 e (a z))) zs)"
proof -
  assume ok: "list_all (\<lambda>z. \<not> isl (to_datetime1 e (a z))) zs"
  then have "list_all (\<lambda>z. \<not> isl (to_datetime1 e (projr (to_datetime1 e (a z))))) zs"
    by (simp add: list_all_iff to_datetime1_again)
  moreover have "map (\<lambda>z. projr (to_datetime1 e (projr (to_datetime1 e (a z))))) zs
                 = map (\<lambda>z. projr (to_datetime1 e (a z))) zs"
    using ok by (simp add: list_all_iff to_datetime1_again)
  ultimately show ?thesis
    using to_datetime_map [of e "\<lambda>z. projr (to_datetime1 e (a z))" zs] by simp
qed

lemma in_add_col: "x \<in> set (add_col c cs) \<longleftrightarrow> x = c \<or> x \<in> set cs"
  by (auto simp: add_col_def)

lemma and_then_Inr: "and_then (Inr x) f = f x"
  by (simp add: and_then_def)

lemma and_then_Inl: "and_then (Inl err) f = Inl err"
  by (simp add: and_then_def)

lemma derived_row_fun:
  "derived_row e lg =
     (\<lambda>z. (fst z)(''Div'' := Str lg,
             ''Date'' := projr (to_datetime1 e (fst z ''Date'')),
             ''season'' := season (projr (to_datetime1 e (fst z ''Date''))),
             ''game_id'' := snd z,
             ''TG'' := projr (cell_add (fst z ''FTHG'') (fst z ''FTAG'')),
             ''city_name'' := city_lookup e (\<lambda>c. Str (name c)) (fst z ''HomeTeam''),
             ''lat'' := city_lookup e (\<lambda>c. Num (lat c)) (fst z ''HomeTeam''),
             ''lon'' := city_lookup e (\<lambda>c. Num (lon c)) (fst z ''HomeTeam'')))"
  by (rule ext) (simp add: derived_row_def tg_cell_def date_cell_def)

lemma derive_closed:
  assumes "derivable e df"
  shows "derive e lg k df = Inr (derived e lg k df)"
proof -
  define zs where "zs = zip (rows df) (game_ids e k (len df))"
  define cs where "cs = columns df"
  have n: "length (game_ids e k (len df)) = length (rows df)"
    by (simp add: game_ids_def len_def)
  have r: "rows df = map fst zs" and g: "game_ids e k (len df) = map snd zs"
    using n by (simp_all add: zs_def)
  have l: "len df = length zs"
    using n by (simp add: zs_def len_def)
  have df: "df = \<lparr>columns = cs, rows = map fst zs\<rparr>"
    using r by (simp add: cs_def)
  have c: "''FTHG'' \<in> set cs" "''FTAG'' \<in> set cs" "''HomeTeam'' \<in> set cs" "''Date'' \<in> set cs"
    using assms by (simp_all add: derivable_def cs_def)
  have a: "list_all (\<lambda>z. \<not> isl (cell_add (fst z ''FTHG'') (fst z ''FTAG''))) zs"
    and d: "list_all (\<lambda>z. \<not> isl (to_datetime1 e (fst z ''Date''))) zs"
    using assms by (simp_all add: derivable_def r list_all_iff)
  have rep: "replicate (length zs) (Str lg) = map (\<lambda>z. Str lg) zs"
    by (simp add: map_replicate_const)
  have "derive e lg k \<lparr>columns = cs, rows = map fst zs\<rparr>
        = Inr (derived e lg k \<lparr>columns = cs, rows = map fst zs\<rparr>)"
    unfolding derive_def derived_def Let_def
    using l g
    apply (simp only: df [symmetric])
    apply (simp only: df)
    apply (simp add: getitem_rows c and_then_Inr series_add_map a rep assign_map
        in_add_col to_datetime_map d to_datetime_twice)
    apply (simp add: derived_columns_def derived_row_fun zip_map_fst_snd)
    done
  then show ?thesis
    using df by simp
qed


lemma traverse_Inl_elem:
  "traverse f xs = Inl err \<Longrightarrow> \<exists>x \<in> set xs. f x = Inl err"
  by (induction xs) (auto split: sum.splits)

lemma cell_add_Inl: "cell_add x y = Inl err \<Longrightarrow> err = TypeError"
  by (cases "(x, y)" rule: cell_add.cases) auto

lemma to_datetime1_Inl:
  "to_datetime1 e x = Inl err \<Longrightarrow> err = ValueError ''Unknown datetime string format''"
  by (cases x) (auto split: option.splits)

lemma series_add_Inl:
  assumes "\<not> list_all (\<lambda>z. \<not> isl (cell_add (a z) (b z))) zs"
  shows "series_add (map a zs) (map b zs) = Inl TypeError"
proof -
  have "\<exists>err. traverse (\<lambda>z. cell_add (a z) (b z)) zs = Inl err"
    using assms traverse_Inl [of "\<lambda>z. cell_add (a z) (b z)" zs] by simp
  then obtain err where t: "traverse (\<lambda>z. cell_add (a z) (b z)) zs = Inl err" ..
  then have "err = TypeError"
    by (auto dest!: traverse_Inl_elem dest: cell_add_Inl)
  with t show ?thesis
    by (simp add: series_add_def zip_map_map zip_same_conv_map traverse_map)
qed

lemma to_datetime_Inl:
  assumes "\<not> list_all (\<lambda>z. \<not> isl (to_datetime1 e (a z))) zs"
  shows "to_datetime e (map a zs) = Inl (ValueError ''Unknown datetime string format'')"
proof -
  have "\<exists>err. traverse (\<lambda>z. to_datetime1 e (a z)) zs = Inl err"
    using assms traverse_Inl [of "\<lambda>z. to_datetime1 e (a z)" zs] by simp
  then obtain err where t: "traverse (\<lambda>z. to_datetime1 e (a z)) zs = Inl err" ..
  then have "err = ValueError ''Unknown datetime string format''"
    by (auto dest!: traverse_Inl_elem dest: to_datetime1_Inl)
  with t show ?thesis
    by (simp add: to_datetime_def traverse_map)
qed

lemma assign_rows:
  "assign c (map v (rows df)) df
   = \<lparr>columns = add_col c (columns df), rows = map (\<lambda>r. r(c := v r)) (rows df)\<rparr>"
  by (simp add: assign_def add_col_def zip_map2 zip_same_conv_map)

lemma derive_fails:
  assumes "\<not> derivable e df"
  shows "derive e lg k df = Inl (derive_error e df)"
proof -
  consider
      (fthg) "''FTHG'' \<notin> set (columns df)"
    | (ftag) "''FTHG'' \<in> set (columns df)" "''FTAG'' \<notin> set (columns df)"
    | (add) "''FTHG'' \<in> set (columns df)" "''FTAG'' \<in> set (columns df)"
        "\<not> list_all (\<lambda>r. \<not> isl (cell_add (r ''FTHG'') (r ''FTAG''))) (rows df)"
    | (home) "''FTHG'' \<in> set (columns df)" "''FTAG'' \<in> set (columns df)"
        "list_all (\<lambda>r. \<not> isl (cell_add (r ''FTHG'') (r ''FTAG''))) (rows df)"
        "''HomeTeam'' \<notin> set (columns df)"
    | (date) "''FTHG'' \<in> set (columns df)" "''FTAG'' \<in> set (columns df)"
        "list_all (\<lambda>r. \<not> isl (cell_add (r ''FTHG'') (r ''FTAG''))) (rows df)"
        "''HomeTeam'' \<in> set (columns df)" "''Date'' \<notin> set (columns df)"
    | (parse) "''FTHG'' \<in> set (columns df)" "''FTAG'' \<in> set (columns df)"
        "list_all (\<lambda>r. \<not> isl (cell_add (r ''FTHG'') (r ''FTAG''))) (rows df)"
        "''HomeTeam'' \<in> set (columns df)" "''Date'' \<in> set (columns df)"
        "\<not> list_all (\<lambda>r. \<not> isl (to_datetime1 e (r ''Date''))) (rows df)"
    using assms by (auto simp: derivable_def list_all_iff)
  then show ?thesis
  proof cases
    case fthg
    then show ?thesis
      by (simp add: derive_def derive_error_def getitem_def and_then_Inl Let_def)
  next
    case ftag
    then show ?thesis
      by (simp add: derive_def derive_error_def getitem_def and_then_Inl and_then_Inr Let_def)
  next
    case add
    then show ?thesis
      by (simp add: derive_def derive_error_def getitem_def and_then_Inl and_then_Inr Let_def
          series_add_Inl)
  next
    case home
    then show ?thesis
      by (simp add: derive_def derive_error_def getitem_def and_then_Inl and_then_Inr Let_def
          series_add_map)
  next
    case date
    have rep: "replicate (len df) (Str lg) = map (\<lambda>r. Str lg) (rows df)"
      by (simp add: len_def map_replicate_const)
    from date show ?thesis
      by (simp add: derive_def derive_error_def and_then_Inl and_then_Inr Let_def
          series_add_map rep assign_rows in_add_col getitem_def)
  next
    case parse
    have rep: "replicate (len df) (Str lg) = map (\<lambda>r. Str lg) (rows df)"
      by (simp add: len_def map_replicate_const)
    from parse show ?thesis
      by (simp add: derive_def derive_error_def and_then_Inl and_then_Inr Let_def
          series_add_map rep assign_rows in_add_col getitem_def to_datetime_Inl)
  qed
qed

lemma pd_concat_merged:
  "pd_concat fs = (if fs = [] then Inl (ValueError ''No objects to concatenate'') else Inr (merged fs))"
  by (simp add: pd_concat_def merged_def)

lemma select_reorder:
  "select d (reorder (columns d)) =
     (if ''game_id'' \<notin> set (columns d) then Inl (KeyError ''game_id'')
      else if ''TG'' \<notin> set (columns d) then Inl (KeyError ''TG'')
      else Inr (d\<lparr>columns := reorder (columns d)\<rparr>))"
proof -
  let ?cs = "columns d"
  let ?others = "filter (\<lambda>c. c \<notin> set [''game_id'', ''TG'']) ?cs"
  have in_cs: "\<And>xs. set xs \<subseteq> set ?cs \<Longrightarrow> filter (\<lambda>c. c \<notin> set ?cs) xs = []"
    by (auto simp: filter_empty_conv)
  have t: "filter (\<lambda>c. c \<notin> set ?cs) (take 3 ?others) = []"
    using set_take_subset [of 3 ?others] by (intro in_cs) auto
  have dr: "filter (\<lambda>c. c \<notin> set ?cs) (drop 3 ?others) = []"
    using set_drop_subset [of 3 ?others] by (intro in_cs) auto
  have "filter (\<lambda>c. c \<notin> set ?cs) (reorder ?cs)
        = (if ''game_id'' \<notin> set ?cs then [''game_id''] else [])
          @ (if ''TG'' \<notin> set ?cs then [''TG''] else [])"
    using t dr by (simp add: reorder_def)
  then show ?thesis
    by (simp add: select_def)
qed


lemma in_derived_columns:
  "c \<in> set (derived_columns cs) \<longleftrightarrow>
     c \<in> set cs \<or> c \<in> set [''Div'', ''Date'', ''season'', ''game_id'', ''TG'', ''city_name'', ''lat'', ''lon'']"
  by (auto simp: derived_columns_def in_add_col)

lemma length_game_ids: "length (game_ids e k n) = n"
  by (simp add: game_ids_def)

lemma game_ids_text: "g \<in> set (game_ids e k n) \<Longrightarrow> g \<noteq> NA"
  by (auto simp: game_ids_def)

lemma rows_derived:
  "rows (derived e lg k df) = map (derived_row e lg) (zip (rows df) (game_ids e k (len df)))"
  by (simp add: derived_def dropna_all_def)

lemma in_columns_derived:
  "c \<in> set (columns (derived e lg k df)) \<longleftrightarrow>
     c \<in> set (derived_columns (columns df))
     \<and> list_ex (\<lambda>r. r c \<noteq> NA) (rows (derived e lg k df))"
  by (simp add: derived_def dropna_all_def)

lemma game_id_in_derived:
  "''game_id'' \<in> set (columns (derived e lg k df)) \<longleftrightarrow> rows df \<noteq> []"
proof -
  let ?zs = "zip (rows df) (game_ids e k (len df))"
  have "\<And>z. z \<in> set ?zs \<Longrightarrow> snd z \<noteq> NA"
    by (metis game_ids_text set_zip_rightD prod.collapse)
  then have "list_ex (\<lambda>r. r ''game_id'' \<noteq> NA) (map (derived_row e lg) ?zs) \<longleftrightarrow> ?zs \<noteq> []"
    by (cases ?zs) (auto simp: list_ex_iff derived_row_def)
  moreover have "?zs \<noteq> [] \<longleftrightarrow> rows df \<noteq> []"
    by (cases "rows df") (simp_all add: game_ids_def len_def upt_rec)
  ultimately show ?thesis
    by (simp add: in_columns_derived rows_derived in_derived_columns)
qed

lemma TG_in_derived:
  "''TG'' \<in> set (columns (derived e lg k df)) \<longleftrightarrow> list_ex (\<lambda>r. tg_cell r \<noteq> NA) (rows df)"
proof -
  let ?zs = "zip (rows df) (game_ids e k (len df))"
  have "map fst ?zs = rows df"
    by (simp add: length_game_ids len_def)
  then have "list_ex (\<lambda>r. tg_cell r \<noteq> NA) (rows df)
             \<longleftrightarrow> list_ex (\<lambda>r. tg_cell r \<noteq> NA) (map fst ?zs)"
    by simp
  also have "\<dots> \<longleftrightarrow> list_ex (\<lambda>r. r ''TG'' \<noteq> NA) (map (derived_row e lg) ?zs)"
    by (simp add: list_ex_iff derived_row_def)
  finally show ?thesis
    by (simp add: in_columns_derived rows_derived in_derived_columns)
qed

text \<open>The outcome of \<open>_process_data\<close> in closed form.\<close>

lemma fst_process_data:
  "fst (process_data e self w write_csv) =
     (if all_data self = [] then Inl (ValueError ''No objects to concatenate'')
      else if \<not> derivable e (merged (all_data self))
        then Inl (derive_error e (merged (all_data self)))
      else if rows (merged (all_data self)) = [] then Inl (KeyError ''game_id'')
      else if \<not> list_ex (\<lambda>r. tg_cell r \<noteq> NA) (rows (merged (all_data self)))
        then Inl (KeyError ''TG'')
      else Inr ((derived e (league self) (uuid_drawn w) (merged (all_data self)))
                 \<lparr>columns := reorder (columns (derived e (league self) (uuid_drawn w)
                                                   (merged (all_data self))))\<rparr>))"
proof (cases "all_data self = []")
  case True
  then show ?thesis
    by (simp add: process_data_empty)
next
  case False
  show ?thesis
  proof (cases "derivable e (merged (all_data self))")
    case no: False
    with False show ?thesis
      by (simp add: process_data_def pd_concat_merged derive_fails and_then_Inl)
  next
    case True
    with False show ?thesis
      by (simp add: process_data_def pd_concat_merged derive_closed and_then_Inr
          select_reorder game_id_in_derived TG_in_derived Let_def)
  qed
qed

section \<open>Concrete runs against the small archive\<close>

lemma url_2019: "construct_url ''epl'' 2019 = Inr ''https://www.football-data.co.uk/mmz4281/1920/E0.csv''"
  by code_simp

lemma url_2030: "construct_url ''epl'' 2030 = Inr ''https://www.football-data.co.uk/mmz4281/3031/E0.csv''"
  by code_simp

lemma fetch_2019:
  "fetch_loop archive ''epl'' [2019] acc w
   = (None, acc @ [season_2019],
      log_request ''https://www.football-data.co.uk/mmz4281/1920/E0.csv'' w)"
  by (simp add: url_2019) (simp add: archive_def)

lemma fetch_fails_2030: "fetch_fails archive ''epl'' 2030"
  by (simp add: fetch_fails_def url_2030) (simp add: archive_def)

lemma merged_once:
  "merged [season_2019] =
     \<lparr>columns = columns season_2019,
      rows = [restrict_row (columns season_2019) match1, restrict_row (columns season_2019) match2]\<rparr>"
  by (simp add: merged_def season_2019_def)

lemma merged_twice:
  "merged [season_2019, season_2019] =
     \<lparr>columns = columns season_2019,
      rows = [restrict_row (columns season_2019) match1, restrict_row (columns season_2019) match2,
              restrict_row (columns season_2019) match1, restrict_row (columns season_2019) match2]\<rparr>"
  by (simp add: merged_def season_2019_def)

lemma cells1:
  "restrict_row (columns season_2019) match1 ''FTHG'' = Num 2"
  "restrict_row (columns season_2019) match1 ''FTAG'' = Num 1"
  "restrict_row (columns season_2019) match1 ''Date'' = Str ''17/08/2019''"
  "restrict_row (columns season_2019) match1 ''HomeTeam'' = Str ''Arsenal''"
  by (simp_all add: restrict_row_def season_2019_def match1_def)

lemma cells2:
  "restrict_row (columns season_2019) match2 ''FTHG'' = Num 0"
  "restrict_row (columns season_2019) match2 ''FTAG'' = Num 0"
  "restrict_row (columns season_2019) match2 ''Date'' = Str ''01/02/2020''"
  "restrict_row (columns season_2019) match2 ''HomeTeam'' = Str ''Unmapped FC''"
  by (simp_all add: restrict_row_def season_2019_def match2_def)

lemma dates:
  "parse_date archive (Str ''17/08/2019'') = Some (2019, 8, 17)"
  "parse_date archive (Str ''01/02/2020'') = Some (2020, 2, 1)"
  by (simp_all add: archive_def)

lemma cols0:
  "''FTHG'' \<in> set (columns season_2019)" "''FTAG'' \<in> set (columns season_2019)"
  "''HomeTeam'' \<in> set (columns season_2019)" "''Date'' \<in> set (columns season_2019)"
  by (simp_all add: season_2019_def)

lemma derivable_once: "derivable archive (merged [season_2019])"
  by (simp add: derivable_def merged_once cols0 cells1 cells2 dates)

lemma derivable_twice: "derivable archive (merged [season_2019, season_2019])"
  by (simp add: derivable_def merged_twice cols0 cells1 cells2 dates)

lemma goals_once: "list_ex (\<lambda>r. tg_cell r \<noteq> NA) (rows (merged [season_2019]))"
  by (simp add: merged_once tg_cell_def cells1)

lemma goals_twice: "list_ex (\<lambda>r. tg_cell r \<noteq> NA) (rows (merged [season_2019, season_2019]))"
  by (simp add: merged_twice tg_cell_def cells1)

section \<open>Calls of the collector\<close>

lemma fst_collect_data:
  "fst (collect_data e self w year_start year_end write_csv) =
     (case fst (fetch_loop e (league self) [year_start..year_end] (all_data self) w) of
        Some err \<Rightarrow> Inl err
      | None \<Rightarrow>
          fst (process_data e
                 (self\<lparr>all_data := all_data self @ fetched e (league self) [year_start..year_end]\<rparr>)
                 (snd (snd (fetch_loop e (league self) [year_start..year_end] (all_data self) w)))
                 write_csv))"
proof -
  obtain r acc w1 where loop:
    "fetch_loop e (league self) [year_start..year_end] (all_data self) w = (r, acc, w1)"
    by (metis prod_cases3)
  then have "acc = all_data self @ fetched e (league self) [year_start..year_end]"
    by (rule fetch_loop_acc)
  with loop show ?thesis
    by (cases r) (simp_all add: collect_data_def split_def Let_def)
qed

lemma collector_after_collect_data:
  "fst (snd (collect_data e self w year_start year_end write_csv))
   = self\<lparr>all_data := all_data self @ fetched e (league self) [year_start..year_end]\<rparr>"
proof -
  obtain r acc w1 where loop:
    "fetch_loop e (league self) [year_start..year_end] (all_data self) w = (r, acc, w1)"
    by (metis prod_cases3)
  then have "acc = all_data self @ fetched e (league self) [year_start..year_end]"
    by (rule fetch_loop_acc)
  with loop show ?thesis
    by (cases r) (simp_all add: collect_data_def split_def Let_def)
qed

lemma fetched_fails:
  "\<forall>year \<in> set years. fetch_fails e lg year \<Longrightarrow> fetched e lg years = []"
  by (induction years)
    (auto simp: fetch_fails_def split: sum.splits response.splits)

lemma years_2019: "[2019..2019] = [2019::int]" "[2020..2019] = ([]::int list)"
  "[2030..2030] = [2030::int]"
  by (simp_all add: upto.simps)

lemma http_archive:
  "http_get archive ''https://www.football-data.co.uk/mmz4281/1920/E0.csv''
   = Response 200 ''Date,HomeTeam,AwayTeam,FTHG,FTAG,FTR''"
  "http_get archive ''https://www.football-data.co.uk/mmz4281/3031/E0.csv''
   = Response 404 ''Not Found''"
  "read_csv archive body = Inr season_2019"
  by (simp_all add: archive_def)

lemmas run_archive = years_2019 url_2019 url_2030 http_archive

lemma collector_after_first_call:
  "fst (snd first_call) = \<lparr>league = ''epl'', all_data = [season_2019]\<rparr>"
  by (simp add: first_call_def collector_after_collect_data init_def run_archive)

lemma process_once:
  "\<not> isl (fst (process_data archive \<lparr>league = ''epl'', all_data = [season_2019]\<rparr> w write_csv))"
  by (simp add: fst_process_data derivable_once goals_once) (simp add: merged_once)

lemma process_twice:
  "\<not> isl (fst (process_data archive \<lparr>league = ''epl'', all_data = [season_2019, season_2019]\<rparr>
                  w write_csv))"
  by (simp add: fst_process_data derivable_twice goals_twice) (simp add: merged_twice)

section \<open>Empty accumulation\<close>

text \<open>
  C1 (as amended). On a collector whose accumulation list is empty, the merge step raises
  the \<open>ValueError\<close> of \<open>pd.concat\<close> on an empty list; and a \<open>collect_data\<close> call on such a
  collector in which the fetch of every year of the range fails, or whose range is
  reversed, raises (that error, or the invalid-league error) and leaves the collector
  as it was.
\<close>

theorem C1_empty_accumulation_raises:
  assumes "all_data self = []"
    and "\<forall>year \<in> set [year_start..year_end]. fetch_fails e (league self) year"
  shows "fst (process_data e self w write_csv) = Inl (ValueError ''No objects to concatenate'')
    \<and> fst (collect_data e self w year_start year_end write_csv)
        \<in> {Inl (ValueError ''No objects to concatenate''), Inl invalid_league}
    \<and> fst (snd (collect_data e self w year_start year_end write_csv)) = self"
proof -
  have none: "fetched e (league self) [year_start..year_end] = []"
    using assms(2) by (rule fetched_fails)
  have same: "self\<lparr>all_data := []\<rparr> = self"
    using assms(1) by simp
  have loop: "fst (fetch_loop e (league self) [year_start..year_end] (all_data self) w)
              \<in> {None, Some invalid_league}"
    using fetch_loop_fails [OF assms(2)] by blast
  have "fst (collect_data e self w year_start year_end write_csv)
        \<in> {Inl (ValueError ''No objects to concatenate''), Inl invalid_league}"
    using loop assms(1) by (auto simp: fst_collect_data none same process_data_empty)
  then show ?thesis
    using assms(1) by (simp add: process_data_empty collector_after_collect_data none same)
qed

theorem C1_witness:
  "all_data (init ''epl'') = [] \<and> fetch_fails archive ''epl'' 2030
   \<and> fst (process_data archive (init ''epl'') world0 False)
       = Inl (ValueError ''No objects to concatenate'')
   \<and> fst (collect_data archive (init ''epl'') world0 2030 2030 False)
       \<in> {Inl (ValueError ''No objects to concatenate''), Inl invalid_league}
   \<and> fst (collect_data archive (init ''epl'') world0 2020 2019 False)
       \<in> {Inl (ValueError ''No objects to concatenate''), Inl invalid_league}"
  using C1_empty_accumulation_raises [of "init ''epl''" 2030 2030 archive world0 False]
    C1_empty_accumulation_raises [of "init ''epl''" 2020 2019 archive world0 False]
  by (simp add: init_def years_2019 fetch_fails_2030)

text \<open>
  C1 as stated fails for a collector that has fetched before: after a first call that
  fetched the 2019/2020 season, a call with a reversed range and a call whose only fetch
  fails both return a table.
\<close>

theorem C1_counterexample:
  "all_data (fst (snd first_call)) = [season_2019]
   \<and> \<not> isl (fst (collect_data archive (fst (snd first_call)) (snd (snd first_call))
                    2020 2019 False))
   \<and> fetch_fails archive ''epl'' 2030
   \<and> \<not> isl (fst (collect_data archive (fst (snd first_call)) (snd (snd first_call))
                    2030 2030 False))"
  by (simp add: collector_after_first_call fst_collect_data run_archive fetch_fails_2030
      process_once)

section \<open>Growth of the accumulation list\<close>

lemma fetched_season_tables:
  "fst (fetch_loop e lg years acc w) = None \<Longrightarrow>
   fetched e lg years = List.map_filter (season_table e lg) years"
proof (induction years arbitrary: acc w)
  case Nil
  then show ?case by (simp add: List.map_filter_simps)
next
  case (Cons year years)
  show ?case
  proof (cases "construct_url lg year")
    case (Inl err)
    with Cons.prems show ?thesis by simp
  next
    case (Inr url)
    show ?thesis
    proof (cases "http_get e url")
      case (RequestException m)
      with Inr Cons show ?thesis
        by (simp add: List.map_filter_simps season_table_def)
    next
      case (Response status_code body)
      show ?thesis
      proof (cases "status_code = 200")
        case False
        with Response Inr Cons show ?thesis
          by (simp add: List.map_filter_simps season_table_def)
      next
        case True
        show ?thesis
        proof (cases "read_csv e body")
          case (Inl err)
          with True Response Inr Cons.prems show ?thesis by simp
        next
          case ok: (Inr df)
          with True Response Inr Cons.prems
          have "fst (fetch_loop e lg years (acc @ [df]) (log_request url w)) = None"
            by simp
          then have "fetched e lg years = List.map_filter (season_table e lg) years"
            by (rule Cons.IH)
          moreover have "season_table e lg year = Some df"
            using ok True Response Inr by (simp add: season_table_def)
          ultimately show ?thesis
            using ok True Response Inr by (simp add: List.map_filter_simps)
        qed
      qed
    qed
  qed
qed

lemma collect_calls_accumulate:
  "league (fst (collect_calls e self w calls)) = league self
   \<and> all_data (fst (collect_calls e self w calls))
       = all_data self @ concat (map (\<lambda>(a, b, c). fetched e (league self) [a..b]) calls)"
proof (induction calls arbitrary: self w)
  case Nil
  show ?case by simp
next
  case (Cons call calls)
  obtain a b c where call: "call = (a, b, c)"
    by (cases call)
  obtain res self1 w1 where step: "collect_data e self w a b c = (res, self1, w1)"
    by (cases "collect_data e self w a b c")
  have self1: "self1 = self\<lparr>all_data := all_data self @ fetched e (league self) [a..b]\<rparr>"
    using collector_after_collect_data [of e self w a b c] step by simp
  have "collect_calls e self w (call # calls) = collect_calls e self1 w1 calls"
    using call step by simp
  with Cons.IH [of self1 w1] self1 call show ?case
    by simp
qed

section \<open>Column order\<close>

lemma first_seen_set_distinct:
  "set (first_seen seen cs) = set cs - set seen \<and> distinct (first_seen seen cs)"
  by (induction cs arbitrary: seen) auto

lemma distinct_add_col: "distinct cs \<Longrightarrow> distinct (add_col c cs)"
  by (simp add: add_col_def)

lemma distinct_columns_derived: "distinct (columns (derived e lg k (merged fs)))"
  by (simp add: derived_def dropna_all_def derived_columns_def distinct_add_col merged_def
      first_seen_set_distinct)

lemma reorder_shape:
  "reorder cs =
     [''game_id''] @ take 3 (filter (\<lambda>c. c \<noteq> ''game_id'' \<and> c \<noteq> ''TG'') cs)
     @ [''TG''] @ drop 3 (filter (\<lambda>c. c \<noteq> ''game_id'' \<and> c \<noteq> ''TG'') cs)"
  by (simp add: reorder_def)

lemma reorder_permutes:
  assumes "distinct cs" and "''game_id'' \<in> set cs" and "''TG'' \<in> set cs"
  shows "distinct (reorder cs) \<and> set (reorder cs) = set cs"
proof -
  let ?others = "filter (\<lambda>c. c \<noteq> ''game_id'' \<and> c \<noteq> ''TG'') cs"
  have split: "take 3 ?others @ drop 3 ?others = ?others"
    by simp
  have d: "distinct ?others"
    using assms(1) by simp
  then have "distinct (take 3 ?others @ drop 3 ?others)"
    by (simp only: split)
  moreover have s: "set (take 3 ?others) \<union> set (drop 3 ?others) = set ?others"
    by (metis split set_append)
  moreover have "set ?others = set cs - {''game_id'', ''TG''}"
    by auto
  ultimately show ?thesis
    using assms(2,3) unfolding reorder_shape
    by (auto simp del: append_take_drop_id)
qed

lemma process_data_returns:
  assumes "fst (process_data e self w write_csv) = Inr out"
  shows "all_data self \<noteq> []"
    and "derivable e (merged (all_data self))"
    and "rows (merged (all_data self)) \<noteq> []"
    and "list_ex (\<lambda>r. tg_cell r \<noteq> NA) (rows (merged (all_data self)))"
    and "out = (derived e (league self) (uuid_drawn w) (merged (all_data self)))
                \<lparr>columns := reorder (columns (derived e (league self) (uuid_drawn w)
                                                  (merged (all_data self))))\<rparr>"
  using assms by (simp_all add: fst_process_data split: if_splits)


lemma ids_two: "game_ids archive k (Suc (Suc 0)) = [Str (replicate 8 (digit_char (k mod 10))), Str (replicate 8 (digit_char (Suc k mod 10)))]"
proof -
  have "[0..<Suc (Suc 0)] = [0, Suc 0]"
    by (simp add: upt_rec)
  then show ?thesis
    by (simp add: game_ids_def archive_def)
qed

lemma more_cells:
  "restrict_row (columns season_2019) match1 ''AwayTeam'' = Str ''Burnley''"
  "restrict_row (columns season_2019) match1 ''FTR'' = Str ''H''"
  "restrict_row (columns season_2019) match2 ''AwayTeam'' = Str ''Arsenal''"
  "restrict_row (columns season_2019) match2 ''FTR'' = Str ''D''"
  by (simp_all add: restrict_row_def season_2019_def match1_def match2_def)

lemma city_cells:
  "cities archive ''Arsenal'' = Some \<lparr>name = ''London'', lat = 5155 / 100, lon = - 11 / 100\<rparr>"
  "cities archive ''Unmapped FC'' = None"
  by (simp_all add: archive_def)

lemma derived_columns_once:
  "derived_columns (columns season_2019) =
     [''Date'', ''HomeTeam'', ''AwayTeam'', ''FTHG'', ''FTAG'', ''FTR'', ''Div'', ''season'',
      ''game_id'', ''TG'', ''city_name'', ''lat'', ''lon'']"
  by (simp add: derived_columns_def add_col_def season_2019_def)

lemma columns_derived_once:
  "columns (derived archive ''epl'' k (merged [season_2019])) =
     [''Date'', ''HomeTeam'', ''AwayTeam'', ''FTHG'', ''FTAG'', ''FTR'', ''Div'', ''season'',
      ''game_id'', ''TG'', ''city_name'', ''lat'', ''lon'']"
  by (simp add: derived_def dropna_all_def merged_once len_def ids_two derived_columns_once
      derived_row_def cells1 more_cells tg_cell_def date_cell_def dates city_cells)


text \<open>
  C5. Whenever the transformer returns a table, its columns are \<open>game_id\<close>, then the first
  three columns of the table after derivation (the value of the
  \<open>assign(...).dropna(...)\<close> expression) that are neither \<open>game_id\<close> nor \<open>TG\<close>, in their
  order, then \<open>TG\<close>, then the remaining such columns in their order. Nothing is lost or
  repeated: the columns are distinct and are those of the derived table, and the rows
  are unchanged.
\<close>

theorem C5_column_order:
  assumes "fst (process_data e self w write_csv) = Inr out"
  shows "\<exists>all_data_df d.
           pd_concat (all_data self) = Inr all_data_df
         \<and> derive e (league self) (uuid_drawn w) all_data_df = Inr d
         \<and> columns out =
             [''game_id'']
             @ take 3 (filter (\<lambda>c. c \<noteq> ''game_id'' \<and> c \<noteq> ''TG'') (columns d))
             @ [''TG'']
             @ drop 3 (filter (\<lambda>c. c \<noteq> ''game_id'' \<and> c \<noteq> ''TG'') (columns d))
         \<and> distinct (columns out) \<and> set (columns out) = set (columns d)
         \<and> rows out = rows d"
proof -
  let ?df = "merged (all_data self)"
  let ?d = "derived e (league self) (uuid_drawn w) ?df"
  note r = process_data_returns [OF assms]
  have c: "pd_concat (all_data self) = Inr ?df"
    using r(1) by (simp add: pd_concat_merged)
  have d: "derive e (league self) (uuid_drawn w) ?df = Inr ?d"
    using r(2) by (rule derive_closed)
  have g: "''game_id'' \<in> set (columns ?d)" and t: "''TG'' \<in> set (columns ?d)"
    using r(3,4) by (simp_all add: game_id_in_derived TG_in_derived)
  have cols: "columns out = reorder (columns ?d)" and rws: "rows out = rows ?d"
    using r(5) by simp_all
  have "distinct (columns out) \<and> set (columns out) = set (columns ?d)"
    unfolding cols using distinct_columns_derived g t by (rule reorder_permutes)
  with c d cols rws show ?thesis
    unfolding reorder_shape by blast
qed

theorem C5_witness:
  "\<exists>out. fst (process_data archive \<lparr>league = ''epl'', all_data = [season_2019]\<rparr> world0 True)
            = Inr out
         \<and> columns out =
             [''game_id'', ''Date'', ''HomeTeam'', ''AwayTeam'', ''TG'', ''FTHG'', ''FTAG'',
              ''FTR'', ''Div'', ''season'', ''city_name'', ''lat'', ''lon'']"
proof -
  obtain out where
    out: "fst (process_data archive \<lparr>league = ''epl'', all_data = [season_2019]\<rparr> world0 True)
          = Inr out"
    using process_once [of world0 True]
    by (cases "fst (process_data archive \<lparr>league = ''epl'', all_data = [season_2019]\<rparr> world0 True)")
      auto
  from C5_column_order [OF out] show ?thesis
    using out
    by (auto simp: pd_concat_merged derive_closed derivable_once columns_derived_once)
qed

section \<open>Rows of the returned table\<close>

lemma rows_of_returned_table:
  assumes "fst (process_data e self w write_csv) = Inr out" and "r \<in> set (rows out)"
  shows "\<exists>r0 g. r0 \<in> set (rows (merged (all_data self))) \<and> g \<noteq> NA
               \<and> \<not> isl (to_datetime1 e (r0 ''Date''))
               \<and> r = derived_row e (league self) (r0, g)"
proof -
  let ?df = "merged (all_data self)"
  let ?zs = "zip (rows ?df) (game_ids e (uuid_drawn w) (len ?df))"
  note p = process_data_returns [OF assms(1)]
  have "rows out = map (derived_row e (league self)) ?zs"
    using p(5) by (simp add: rows_derived)
  with assms(2) obtain z where z: "z \<in> set ?zs" and r: "r = derived_row e (league self) z"
    by auto
  from z have "fst z \<in> set (rows ?df)" and "snd z \<in> set (game_ids e (uuid_drawn w) (len ?df))"
    by (metis prod.collapse set_zip_leftD, metis prod.collapse set_zip_rightD)
  moreover from this p(2) have "\<not> isl (to_datetime1 e (fst z ''Date''))"
    by (simp add: derivable_def list_all_iff)
  ultimately show ?thesis
    using r game_ids_text by (metis prod.collapse)
qed

lemma column_kept:
  assumes "fst (process_data e self w write_csv) = Inr out" and "r \<in> set (rows out)"
    and "r c \<noteq> NA"
    and "c \<in> set [''Div'', ''Date'', ''season'', ''game_id'', ''TG'', ''city_name'', ''lat'', ''lon'']"
  shows "c \<in> set (columns out)"
proof -
  let ?d = "derived e (league self) (uuid_drawn w) (merged (all_data self))"
  note p = process_data_returns [OF assms(1)]
  have g: "''game_id'' \<in> set (columns ?d)" and t: "''TG'' \<in> set (columns ?d)"
    using p(3,4) by (simp_all add: game_id_in_derived TG_in_derived)
  have "rows out = rows ?d"
    using p(5) by simp
  with assms(2,3) have "list_ex (\<lambda>r. r c \<noteq> NA) (rows ?d)"
    by (auto simp: list_ex_iff)
  with assms(4) have "c \<in> set (columns ?d)"
    by (simp only: in_columns_derived in_derived_columns) simp
  moreover have "set (columns out) = set (columns ?d)"
    using p(5) reorder_permutes [OF distinct_columns_derived g t] by simp
  ultimately show ?thesis
    by simp
qed

lemma rows_derived_once:
  "rows (derived archive ''epl'' k (merged [season_2019])) =
     [derived_row archive ''epl''
        (restrict_row (columns season_2019) match1, Str (replicate 8 (digit_char (k mod 10)))),
      derived_row archive ''epl''
        (restrict_row (columns season_2019) match2,
         Str (replicate 8 (digit_char (Suc k mod 10))))]"
  by (simp add: rows_derived merged_once len_def ids_two)

lemma returned_once:
  "\<exists>out. fst (process_data archive \<lparr>league = ''epl'', all_data = [season_2019]\<rparr> w write_csv)
            = Inr out
         \<and> rows out = rows (derived archive ''epl'' (uuid_drawn w) (merged [season_2019]))"
proof -
  obtain out where
    out: "fst (process_data archive \<lparr>league = ''epl'', all_data = [season_2019]\<rparr> w write_csv)
          = Inr out"
    using process_once [of w write_csv]
    by (cases "fst (process_data archive \<lparr>league = ''epl'', all_data = [season_2019]\<rparr> w write_csv)")
      auto
  from process_data_returns(5) [OF out] out show ?thesis
    by simp
qed

lemma season_text_2019: "season_text 2019 = ''2019/2020''"
  by code_simp

lemma to_datetime1_cities: "to_datetime1 (e\<lparr>cities := m\<rparr>) x = to_datetime1 e x"
  by (cases x) simp_all

lemma derivable_cities: "derivable (e\<lparr>cities := m\<rparr>) df = derivable e df"
  by (simp add: derivable_def to_datetime1_cities)

section \<open>Season labels\<close>

text \<open>
  C6 (as amended). In every row of a returned table that has a match date, that is
  whose \<open>Date\<close> is a date with year \<open>y\<close> and month \<open>m\<close>, the \<open>season\<close> label is the text
  \<open>Y/Y+1\<close> with \<open>Y = y\<close> when \<open>m \<ge> 8\<close> and \<open>Y = y - 1\<close> when \<open>m < 8\<close>; both columns are
  columns of the table.
\<close>

theorem C6_season_label:
  assumes "fst (process_data e self w write_csv) = Inr out"
    and "r \<in> set (rows out)"
    and "r ''Date'' = Dt y m d"
  shows "r ''season'' = Str (season_text (if 8 \<le> m then y else y - 1))
         \<and> ''Date'' \<in> set (columns out) \<and> ''season'' \<in> set (columns out)"
proof -
  obtain r0 g where r: "r = derived_row e (league self) (r0, g)"
    using rows_of_returned_table [OF assms(1,2)] by blast
  have "r ''season'' = season (r ''Date'')"
    by (simp add: r derived_row_def)
  with assms(3) have s: "r ''season'' = Str (season_text (if 8 \<le> m then y else y - 1))"
    by (simp add: season_text_def)
  then have "r ''season'' \<noteq> NA"
    by simp
  then have "''season'' \<in> set (columns out)"
    using assms(1,2) by (intro column_kept [where r = r]) simp_all
  moreover have "''Date'' \<in> set (columns out)"
    using assms by (intro column_kept [where r = r]) simp_all
  ultimately show ?thesis
    using s by simp
qed


theorem C6_witness:
  "\<exists>out r1 r2.
     fst (process_data archive \<lparr>league = ''epl'', all_data = [season_2019]\<rparr> world0 False)
       = Inr out
     \<and> rows out = [r1, r2]
     \<and> r1 ''Date'' = Dt 2019 8 17 \<and> r1 ''season'' = Str ''2019/2020''
     \<and> r2 ''Date'' = Dt 2020 2 1 \<and> r2 ''season'' = Str ''2019/2020''"
proof -
  let ?self = "\<lparr>league = ''epl'', all_data = [season_2019]\<rparr>"
  obtain out where out: "fst (process_data archive ?self world0 False) = Inr out"
    and rws: "rows out = rows (derived archive ''epl'' (uuid_drawn world0) (merged [season_2019]))"
    using returned_once [of world0 False] by blast
  define r1 where "r1 = derived_row archive ''epl''
    (restrict_row (columns season_2019) match1, Str (replicate 8 (digit_char (0 mod 10))))"
  define r2 where "r2 = derived_row archive ''epl''
    (restrict_row (columns season_2019) match2, Str (replicate 8 (digit_char (Suc 0 mod 10))))"
  have rows2: "rows out = [r1, r2]"
    by (simp add: rws rows_derived_once world0_def r1_def r2_def)
  have d1: "r1 ''Date'' = Dt 2019 8 17" and d2: "r2 ''Date'' = Dt 2020 2 1"
    by (simp_all add: r1_def r2_def derived_row_def date_cell_def cells1 cells2 dates)
  have in1: "r1 \<in> set (rows out)" and in2: "r2 \<in> set (rows out)"
    by (simp_all add: rows2)
  have "r1 ''season'' = Str ''2019/2020''" and "r2 ''season'' = Str ''2019/2020''"
    using C6_season_label [OF out in1 d1] C6_season_label [OF out in2 d2]
    by (simp_all add: season_text_2019)
  with out rows2 d1 d2 show ?thesis
    by blast
qed

lemma merged_with_blank:
  "merged [season_with_blank] =
     \<lparr>columns = columns season_with_blank,
      rows = [restrict_row (columns season_with_blank) match1,
              restrict_row (columns season_with_blank) blank_row]\<rparr>"
  by (simp add: merged_def season_with_blank_def)

lemma blank_cells: "restrict_row cs blank_row c = NA"
  by (simp add: restrict_row_def blank_row_def)

lemma cells1_blank:
  "restrict_row (columns season_with_blank) match1 ''FTHG'' = Num 2"
  "restrict_row (columns season_with_blank) match1 ''FTAG'' = Num 1"
  "restrict_row (columns season_with_blank) match1 ''Date'' = Str ''17/08/2019''"
  by (simp_all add: restrict_row_def season_with_blank_def match1_def)

lemma process_with_blank:
  "fst (process_data archive \<lparr>league = ''epl'', all_data = [season_with_blank]\<rparr> w write_csv)
   = Inr ((derived archive ''epl'' (uuid_drawn w) (merged [season_with_blank]))
           \<lparr>columns := reorder (columns (derived archive ''epl'' (uuid_drawn w)
                                            (merged [season_with_blank])))\<rparr>)"
proof -
  have "derivable archive (merged [season_with_blank])"
    by (simp add: derivable_def merged_with_blank blank_cells cells1_blank dates)
      (simp add: season_with_blank_def)
  moreover have "list_ex (\<lambda>r. tg_cell r \<noteq> NA) (rows (merged [season_with_blank]))"
    by (simp add: merged_with_blank tg_cell_def cells1_blank)
  moreover have "rows (merged [season_with_blank]) \<noteq> []"
    by (simp add: merged_with_blank)
  ultimately show ?thesis
    by (simp add: fst_process_data)
qed

text \<open>
  C6 as stated fails for a row without a date: the row of a line of separators is
  returned with a missing \<open>Date\<close> and the label \<open>nan/nan\<close>, which names no season.
\<close>

theorem C6_counterexample:
  "\<not> isl (fst (process_data archive \<lparr>league = ''epl'', all_data = [season_with_blank]\<rparr>
                  world0 False))
   \<and> length (rows (projr (fst (process_data archive
                 \<lparr>league = ''epl'', all_data = [season_with_blank]\<rparr> world0 False)))) = 2
   \<and> (rows (projr (fst (process_data archive
                 \<lparr>league = ''epl'', all_data = [season_with_blank]\<rparr> world0 False))) ! 1)
        ''Date'' = NA
   \<and> (rows (projr (fst (process_data archive
                 \<lparr>league = ''epl'', all_data = [season_with_blank]\<rparr> world0 False))) ! 1)
        ''season'' = Str ''nan/nan''"
  by (simp add: process_with_blank rows_derived merged_with_blank len_def ids_two
      derived_row_def date_cell_def blank_cells)

section \<open>City lookup\<close>

text \<open>
  C9. In every row of a returned table: when the home team is a key of the city table,
  \<open>city_name\<close>, \<open>lat\<close> and \<open>lon\<close> hold the name and the coordinates of its entry, so they
  are not missing, and the three columns are columns of the table; when it is no key,
  the three cells are missing (where no row has a known home team the three columns are
  entirely missing and \<open>dropna\<close> has dropped them). The lookup raises nothing: whatever
  the city table, also one that knows no team, the transformer returns a table if it
  does so with the given one.
\<close>

theorem C9_city_fields:
  assumes "fst (process_data e self w write_csv) = Inr out"
    and "r \<in> set (rows out)"
  shows "(\<forall>t c. r ''HomeTeam'' = Str t \<and> cities e t = Some c \<longrightarrow>
            r ''city_name'' = Str (name c) \<and> r ''lat'' = Num (lat c) \<and> r ''lon'' = Num (lon c)
            \<and> set [''city_name'', ''lat'', ''lon''] \<subseteq> set (columns out))
         \<and> ((\<forall>t. r ''HomeTeam'' = Str t \<longrightarrow> cities e t = None) \<longrightarrow>
            r ''city_name'' = NA \<and> r ''lat'' = NA \<and> r ''lon'' = NA)
         \<and> (\<forall>m. \<not> isl (fst (process_data (e\<lparr>cities := m\<rparr>) self w write_csv)))"
proof -
  obtain r0 g where r: "r = derived_row e (league self) (r0, g)"
    using rows_of_returned_table [OF assms] by blast
  have known: "r ''city_name'' = Str (name c) \<and> r ''lat'' = Num (lat c) \<and> r ''lon'' = Num (lon c)
               \<and> set [''city_name'', ''lat'', ''lon''] \<subseteq> set (columns out)"
    if "r ''HomeTeam'' = Str t" and "cities e t = Some c" for t c
  proof -
    from that have cells: "r ''city_name'' = Str (name c)" "r ''lat'' = Num (lat c)"
      "r ''lon'' = Num (lon c)"
      by (simp_all add: r derived_row_def)
    then have "r ''city_name'' \<noteq> NA" "r ''lat'' \<noteq> NA" "r ''lon'' \<noteq> NA"
      by simp_all
    then have "''city_name'' \<in> set (columns out)" "''lat'' \<in> set (columns out)"
      "''lon'' \<in> set (columns out)"
      using assms by (auto intro: column_kept [where r = r])
    with cells show ?thesis
      by simp
  qed
  have unknown: "r ''city_name'' = NA \<and> r ''lat'' = NA \<and> r ''lon'' = NA"
    if "\<forall>t. r ''HomeTeam'' = Str t \<longrightarrow> cities e t = None"
    using that by (cases "r0 ''HomeTeam''") (simp_all add: r derived_row_def)
  have "\<not> isl (fst (process_data (e\<lparr>cities := m\<rparr>) self w write_csv))" for m
    using process_data_returns(1-4) [OF assms(1)]
    by (simp add: fst_process_data derivable_cities)
  with known unknown show ?thesis
    by blast
qed

theorem C9_witness:
  "\<exists>out r1 r2.
     fst (process_data archive \<lparr>league = ''epl'', all_data = [season_2019]\<rparr> world0 False)
       = Inr out
     \<and> rows out = [r1, r2]
     \<and> r1 ''HomeTeam'' = Str ''Arsenal''
     \<and> r1 ''city_name'' = Str ''London'' \<and> r1 ''lat'' = Num (5155 / 100)
     \<and> r1 ''lon'' = Num (- 11 / 100)
     \<and> set [''city_name'', ''lat'', ''lon''] \<subseteq> set (columns out)
     \<and> r2 ''HomeTeam'' = Str ''Unmapped FC''
     \<and> r2 ''city_name'' = NA \<and> r2 ''lat'' = NA \<and> r2 ''lon'' = NA
     \<and> \<not> isl (fst (process_data (archive\<lparr>cities := Map.empty\<rparr>)
                     \<lparr>league = ''epl'', all_data = [season_2019]\<rparr> world0 False))"
proof -
  let ?self = "\<lparr>league = ''epl'', all_data = [season_2019]\<rparr>"
  obtain out where out: "fst (process_data archive ?self world0 False) = Inr out"
    and rws: "rows out = rows (derived archive ''epl'' (uuid_drawn world0) (merged [season_2019]))"
    using returned_once [of world0 False] by blast
  define r1 where "r1 = derived_row archive ''epl''
    (restrict_row (columns season_2019) match1, Str (replicate 8 (digit_char (0 mod 10))))"
  define r2 where "r2 = derived_row archive ''epl''
    (restrict_row (columns season_2019) match2, Str (replicate 8 (digit_char (Suc 0 mod 10))))"
  have rows2: "rows out = [r1, r2]"
    by (simp add: rws rows_derived_once world0_def r1_def r2_def)
  have h1: "r1 ''HomeTeam'' = Str ''Arsenal''" and h2: "r2 ''HomeTeam'' = Str ''Unmapped FC''"
    by (simp_all add: r1_def r2_def derived_row_def cells1 cells2)
  have in1: "r1 \<in> set (rows out)" and in2: "r2 \<in> set (rows out)"
    by (simp_all add: rows2)
  note c1 = C9_city_fields [OF out in1] and c2 = C9_city_fields [OF out in2]
  from c1 h1 city_cells(1)
  have "r1 ''city_name'' = Str ''London'' \<and> r1 ''lat'' = Num (5155 / 100)
        \<and> r1 ''lon'' = Num (- 11 / 100)
        \<and> set [''city_name'', ''lat'', ''lon''] \<subseteq> set (columns out)"
    by fastforce
  moreover from c2 h2 city_cells(2)
  have "r2 ''city_name'' = NA \<and> r2 ''lat'' = NA \<and> r2 ''lon'' = NA"
    by simp
  moreover from c1
  have "\<not> isl (fst (process_data (archive\<lparr>cities := Map.empty\<rparr>) ?self world0 False))"
    by blast
  ultimately show ?thesis
    using out rows2 h1 h2 by blast
qed

section \<open>Independence of the identifiers drawn\<close>

lemma to_datetime1_uuid: "to_datetime1 (e\<lparr>uuid4_hex := u\<rparr>) x = to_datetime1 e x"
  by (cases x) simp_all

lemma city_lookup_uuid: "city_lookup (e\<lparr>uuid4_hex := u\<rparr>) f x = city_lookup e f x"
  by (cases x) simp_all

lemma derived_row_uuid: "derived_row (e\<lparr>uuid4_hex := u\<rparr>) lg z = derived_row e lg z"
  by (simp add: derived_row_def date_cell_def to_datetime1_uuid city_lookup_uuid)

lemma derivable_uuid: "derivable (e\<lparr>uuid4_hex := u\<rparr>) df = derivable e df"
  by (simp add: derivable_def to_datetime1_uuid)

lemma derive_error_uuid: "derive_error (e\<lparr>uuid4_hex := u\<rparr>) df = derive_error e df"
  by (simp add: derive_error_def)

lemma derived_row_without_id:
  "(derived_row e lg z)(''game_id'' := NA) = derived_row e lg (fst z, NA)"
  by (rule ext) (simp add: derived_row_def)

lemma derived_row_other:
  "c \<noteq> ''game_id'' \<Longrightarrow> derived_row e lg z c = derived_row e lg (fst z, NA) c"
  by (simp add: derived_row_def)

lemma rows_derived_without_id:
  "map (\<lambda>r. r(''game_id'' := NA)) (rows (derived e lg k df))
   = map (\<lambda>r. derived_row e lg (r, NA)) (rows df)"
proof -
  let ?zs = "zip (rows df) (game_ids e k (len df))"
  have "map (\<lambda>r. r(''game_id'' := NA)) (rows (derived e lg k df))
        = map (\<lambda>r. derived_row e lg (r, NA)) (map fst ?zs)"
    by (simp add: rows_derived derived_row_without_id)
  also have "map fst ?zs = rows df"
    by (simp add: length_game_ids len_def)
  finally show ?thesis .
qed

lemma columns_derived_closed:
  "columns (derived e lg k df) =
     filter (\<lambda>c. if c = ''game_id'' then rows df \<noteq> []
                 else list_ex (\<lambda>r. derived_row e lg (r, NA) c \<noteq> NA) (rows df))
       (derived_columns (columns df))"
proof -
  let ?zs = "zip (rows df) (game_ids e k (len df))"
  let ?rows = "map (derived_row e lg) ?zs"
  have fsts: "map fst ?zs = rows df"
    by (simp add: length_game_ids len_def)
  have other: "list_ex (\<lambda>r. r c \<noteq> NA) ?rows
               = list_ex (\<lambda>r. derived_row e lg (r, NA) c \<noteq> NA) (rows df)"
    if "c \<noteq> ''game_id''" for c
  proof -
    have step: "derived_row e lg z c = derived_row e lg (fst z, NA) c" for z
      using that by (rule derived_row_other)
    have "list_ex (\<lambda>r. r c \<noteq> NA) ?rows = (\<exists>z \<in> set ?zs. derived_row e lg z c \<noteq> NA)"
      by (simp add: list_ex_iff)
    also have "\<dots> = (\<exists>z \<in> set ?zs. derived_row e lg (fst z, NA) c \<noteq> NA)"
      by (simp only: step [symmetric])
    also have "\<dots> = list_ex (\<lambda>r. derived_row e lg (r, NA) c \<noteq> NA) (map fst ?zs)"
      by (simp add: list_ex_iff)
    finally show ?thesis
      by (simp only: fsts)
  qed
  have gid: "list_ex (\<lambda>r. r ''game_id'' \<noteq> NA) ?rows = (rows df \<noteq> [])"
    using game_id_in_derived [of e lg k df]
    by (simp add: in_columns_derived in_derived_columns rows_derived)
  have "columns (derived e lg k df)
        = filter (\<lambda>c. list_ex (\<lambda>r. r c \<noteq> NA) ?rows) (derived_columns (columns df))"
    by (simp add: derived_def dropna_all_def)
  also have "\<dots> = filter (\<lambda>c. if c = ''game_id'' then rows df \<noteq> []
                 else list_ex (\<lambda>r. derived_row e lg (r, NA) c \<noteq> NA) (rows df))
       (derived_columns (columns df))"
  proof (rule filter_cong [OF refl])
    fix c
    show "list_ex (\<lambda>r. r c \<noteq> NA) ?rows
          = (if c = ''game_id'' then rows df \<noteq> []
             else list_ex (\<lambda>r. derived_row e lg (r, NA) c \<noteq> NA) (rows df))"
    proof (cases "c = ''game_id''")
      case True
      with gid show ?thesis by simp
    next
      case False
      with other [OF False] show ?thesis by simp
    qed
  qed
  finally show ?thesis .
qed


lemma returned_without_game_id:
  "map_sum id without_game_id (fst (process_data (e\<lparr>uuid4_hex := u\<rparr>) self w' write_csv))
   = map_sum id without_game_id (fst (process_data e self w write_csv))"
proof -
  let ?df = "merged (all_data self)"
  have "without_game_id
          ((derived (e\<lparr>uuid4_hex := u\<rparr>) lg k' ?df)
             \<lparr>columns := reorder (columns (derived (e\<lparr>uuid4_hex := u\<rparr>) lg k' ?df))\<rparr>)
        = without_game_id
            ((derived e lg k ?df)\<lparr>columns := reorder (columns (derived e lg k ?df))\<rparr>)"
    for lg k k'
    by (simp add: without_game_id_def rows_derived_without_id columns_derived_closed
        derived_row_uuid)
  then show ?thesis
    by (simp add: fst_process_data derivable_uuid derive_error_uuid)
qed

lemma fetch_loop_uuid:
  "fst (fetch_loop (e\<lparr>uuid4_hex := u\<rparr>) lg years acc w') = fst (fetch_loop e lg years acc w)"
proof (induction years arbitrary: acc w w')
  case Nil
  show ?case by simp
next
  case (Cons year years)
  show ?case
  proof (cases "construct_url lg year")
    case (Inl err)
    then show ?thesis by simp
  next
    case (Inr url)
    show ?thesis
    proof (cases "http_get e url")
      case (RequestException m)
      with Inr Cons.IH show ?thesis by simp
    next
      case (Response status_code body)
      show ?thesis
      proof (cases "read_csv e body")
        case (Inl err)
        with Response Inr Cons.IH show ?thesis by simp
      next
        case ok: (Inr df)
        with Response Inr Cons.IH show ?thesis by simp
      qed
    qed
  qed
qed

lemma fetched_uuid: "fetched (e\<lparr>uuid4_hex := u\<rparr>) lg years = fetched e lg years"
proof (induction years)
  case Nil
  show ?case by simp
next
  case (Cons year years)
  show ?case
  proof (cases "construct_url lg year")
    case (Inl err)
    then show ?thesis by simp
  next
    case (Inr url)
    show ?thesis
    proof (cases "http_get e url")
      case (RequestException m)
      with Inr Cons.IH show ?thesis by simp
    next
      case (Response status_code body)
      with Inr Cons.IH show ?thesis
        by (cases "read_csv e body") simp_all
    qed
  qed
qed

section \<open>Repeated calls\<close>

lemma len_returned:
  "fst (process_data e self w write_csv) = Inr out \<Longrightarrow>
   len out = length (rows (merged (all_data self)))"
  using process_data_returns(5) [of e self w write_csv out]
  by (simp add: len_def rows_derived length_game_ids)

lemma returned_twice:
  "\<exists>out. fst (process_data archive \<lparr>league = ''epl'', all_data = [season_2019, season_2019]\<rparr>
                 w write_csv) = Inr out"
  using process_twice [of w write_csv]
  by (cases "fst (process_data archive \<lparr>league = ''epl'', all_data = [season_2019, season_2019]\<rparr>
                    w write_csv)") auto

text \<open>
  C2 (as amended). The outcome of a \<open>collect_data\<close> call, up to the \<open>game_id\<close> column of
  a returned table, is the same whatever identifiers are drawn and whatever was
  requested, printed and written before: it depends only on the arguments, the remote
  source and the collector's state (its league and its accumulation list). So two calls
  with the same arguments from the same collector state, for instance on two new
  collectors, raise the same exception or return tables that are equal but for
  \<open>game_id\<close>.
\<close>

theorem C2_same_state_same_table:
  "map_sum id without_game_id
     (fst (collect_data (e\<lparr>uuid4_hex := u\<rparr>) self w' year_start year_end write_csv))
   = map_sum id without_game_id
       (fst (collect_data e self w year_start year_end write_csv))"
proof -
  let ?e' = "e\<lparr>uuid4_hex := u\<rparr>"
  let ?years = "[year_start..year_end]"
  have loop: "fst (fetch_loop ?e' (league self) ?years (all_data self) w')
              = fst (fetch_loop e (league self) ?years (all_data self) w)"
    by (rule fetch_loop_uuid)
  show ?thesis
  proof (cases "fst (fetch_loop e (league self) ?years (all_data self) w)")
    case None
    with loop show ?thesis
      by (simp add: fst_collect_data fetched_uuid returned_without_game_id)
  next
    case (Some err)
    with loop show ?thesis
      by (simp add: fst_collect_data)
  qed
qed

theorem C2_witness:
  "\<not> isl (fst (collect_data archive (init ''epl'') world0 2019 2019 False))
   \<and> map_sum id without_game_id
       (fst (collect_data (archive\<lparr>uuid4_hex := \<lambda>n. replicate 32 CHR ''f''\<rparr>) (init ''epl'')
               (world0\<lparr>uuid_drawn := 7\<rparr>) 2019 2019 False))
     = map_sum id without_game_id
         (fst (collect_data archive (init ''epl'') world0 2019 2019 False))"
  using C2_same_state_same_table [of "\<lambda>n. replicate 32 CHR ''f''" archive "init ''epl''"
      "world0\<lparr>uuid_drawn := 7\<rparr>" 2019 2019 False world0]
  by (simp add: fst_collect_data init_def run_archive process_once)

text \<open>
  C2 as stated fails on one collector: the second of two calls with the same arguments
  merges the season fetched by the first call with the season it fetches itself, so it
  returns four rows where the first call returned two.
\<close>

theorem C2_counterexample:
  "map_sum id len (fst first_call) = Inr 2
   \<and> map_sum id len
       (fst (collect_data archive (fst (snd first_call)) (snd (snd first_call))
               2019 2019 False)) = Inr 4"
proof -
  define w1 where "w1 = snd (snd (fetch_loop archive ''epl'' [2019] [] world0))"
  define w2 where
    "w2 = snd (snd (fetch_loop archive ''epl'' [2019] [season_2019] (snd (snd first_call))))"
  have first: "fst first_call
               = fst (process_data archive \<lparr>league = ''epl'', all_data = [season_2019]\<rparr> w1 False)"
    unfolding w1_def by (simp add: first_call_def fst_collect_data init_def run_archive)
  have second: "fst (collect_data archive (fst (snd first_call)) (snd (snd first_call))
                       2019 2019 False)
                = fst (process_data archive
                         \<lparr>league = ''epl'', all_data = [season_2019, season_2019]\<rparr> w2 False)"
    unfolding w2_def by (simp add: collector_after_first_call fst_collect_data run_archive)
  obtain out1 where out1:
    "fst (process_data archive \<lparr>league = ''epl'', all_data = [season_2019]\<rparr> w1 False) = Inr out1"
    using returned_once [of w1 False] by blast
  obtain out2 where out2:
    "fst (process_data archive \<lparr>league = ''epl'', all_data = [season_2019, season_2019]\<rparr>
            w2 False) = Inr out2"
    using returned_twice [of w2 False] by blast
  have "len out1 = 2"
    using len_returned [OF out1] by (simp add: merged_once)
  moreover have "len out2 = 4"
    using len_returned [OF out2] by (simp add: merged_twice)
  ultimately show ?thesis
    by (simp only: first second out1 out2) simp
qed

section \<open>The merge works on the whole accumulation list\<close>

lemma length_rows_merged: "length (rows (merged fs)) = sum_list (map len fs)"
  by (induction fs) (simp_all add: merged_def len_def)

lemma rows_merged:
  "rows (merged fs) = concat (map (\<lambda>f. map (restrict_row (columns f)) (rows f)) fs)"
  by (simp add: merged_def)

lemma returned_rows:
  assumes "fst (process_data e self w write_csv) = Inr out"
  shows "len out = sum_list (map len (all_data self))"
    and "map (\<lambda>r. r(''game_id'' := NA)) (rows out)
         = map (\<lambda>r. derived_row e (league self) (r, NA))
             (concat (map (\<lambda>f. map (restrict_row (columns f)) (rows f)) (all_data self)))"
proof -
  show "len out = sum_list (map len (all_data self))"
    using len_returned [OF assms] by (simp add: length_rows_merged)
  have "rows out = rows (derived e (league self) (uuid_drawn w) (merged (all_data self)))"
    using process_data_returns(5) [OF assms] by simp
  then show "map (\<lambda>r. r(''game_id'' := NA)) (rows out)
         = map (\<lambda>r. derived_row e (league self) (r, NA))
             (concat (map (\<lambda>f. map (restrict_row (columns f)) (rows f)) (all_data self)))"
    by (simp only: rows_derived_without_id rows_merged)
qed

text \<open>
  C10. The accumulation list only grows. A \<open>collect_data\<close> call leaves the collector with
  its former list followed by the tables fetched in the call (and the same league); when
  no exception leaves the loop these are the tables of all the years whose fetch
  succeeded, in order; after any sequence of calls the list is the initial one followed
  by the tables fetched in every call. The merge step of a call works on the list so
  extended: a table that the call returns has one row for every row of every table of
  that list, in the order of the list, each row being the derived row of the row it
  comes from.
\<close>

theorem C10_all_data_grows:
  "fst (snd (collect_data e self w year_start year_end write_csv))
     = self\<lparr>all_data := all_data self @ fetched e (league self) [year_start..year_end]\<rparr>
   \<and> (fst (fetch_loop e (league self) [year_start..year_end] (all_data self) w) = None \<longrightarrow>
        fetched e (league self) [year_start..year_end]
          = List.map_filter (season_table e (league self)) [year_start..year_end]
        \<and> fst (collect_data e self w year_start year_end write_csv)
          = fst (process_data e
                   (self\<lparr>all_data := all_data self
                            @ fetched e (league self) [year_start..year_end]\<rparr>)
                   (snd (snd (fetch_loop e (league self) [year_start..year_end]
                                (all_data self) w)))
                   write_csv))
   \<and> (\<forall>out. fst (collect_data e self w year_start year_end write_csv) = Inr out \<longrightarrow>
        len out
          = sum_list (map len (all_data self @ fetched e (league self) [year_start..year_end]))
        \<and> map (\<lambda>r. r(''game_id'' := NA)) (rows out)
          = map (\<lambda>r. derived_row e (league self) (r, NA))
              (concat (map (\<lambda>f. map (restrict_row (columns f)) (rows f))
                         (all_data self @ fetched e (league self) [year_start..year_end]))))
   \<and> league (fst (collect_calls e self w calls)) = league self
   \<and> all_data (fst (collect_calls e self w calls))
       = all_data self @ concat (map (\<lambda>(a, b, c). fetched e (league self) [a..b]) calls)"
proof -
  let ?years = "[year_start..year_end]"
  let ?self1 = "self\<lparr>all_data := all_data self @ fetched e (league self) ?years\<rparr>"
  let ?w1 = "snd (snd (fetch_loop e (league self) ?years (all_data self) w))"
  have merge: "len out = sum_list (map len (all_data self @ fetched e (league self) ?years))
        \<and> map (\<lambda>r. r(''game_id'' := NA)) (rows out)
          = map (\<lambda>r. derived_row e (league self) (r, NA))
              (concat (map (\<lambda>f. map (restrict_row (columns f)) (rows f))
                         (all_data self @ fetched e (league self) ?years)))"
    if out: "fst (collect_data e self w year_start year_end write_csv) = Inr out" for out
  proof -
    have "fst (process_data e ?self1 ?w1 write_csv) = Inr out"
      using out
      by (cases "fst (fetch_loop e (league self) ?years (all_data self) w)")
        (simp_all add: fst_collect_data)
    from returned_rows [OF this] show ?thesis
      by simp
  qed
  show ?thesis
    using collect_calls_accumulate [of e self w calls] merge
    by (simp add: collector_after_collect_data fetched_season_tables fst_collect_data)
qed

theorem C10_witness:
  "fst (snd (collect_data archive (init ''epl'') world0 2019 2019 True))
     = \<lparr>league = ''epl'', all_data = [season_2019]\<rparr>
   \<and> fst (fetch_loop archive ''epl'' [2019] [] world0) = None
   \<and> List.map_filter (season_table archive ''epl'') [2019] = [season_2019]
   \<and> fst (collect_data archive (init ''epl'') world0 2019 2019 True)
       = fst (process_data archive \<lparr>league = ''epl'', all_data = [season_2019]\<rparr>
                (log_request ''https://www.football-data.co.uk/mmz4281/1920/E0.csv'' world0)
                True)
   \<and> all_data (fst (collect_calls archive (init ''epl'') world0
                       [(2019, 2019, False), (2030, 2030, False), (2020, 2019, False),
                        (2019, 2019, True)]))
       = [season_2019, season_2019]
   \<and> (\<exists>out. fst (collect_data archive \<lparr>league = ''epl'', all_data = [season_2019]\<rparr> world0
                    2019 2019 False) = Inr out
          \<and> len out = 4
          \<and> map (\<lambda>r. r(''game_id'' := NA)) (rows out)
            = map (\<lambda>r. derived_row archive ''epl'' (r, NA))
                [restrict_row (columns season_2019) match1,
                 restrict_row (columns season_2019) match2,
                 restrict_row (columns season_2019) match1,
                 restrict_row (columns season_2019) match2])"
proof -
  let ?used = "\<lparr>league = ''epl'', all_data = [season_2019]\<rparr>"
  have first: "fst (snd (collect_data archive (init ''epl'') world0 2019 2019 True))
     = \<lparr>league = ''epl'', all_data = [season_2019]\<rparr>
   \<and> fst (fetch_loop archive ''epl'' [2019] [] world0) = None
   \<and> List.map_filter (season_table archive ''epl'') [2019] = [season_2019]
   \<and> fst (collect_data archive (init ''epl'') world0 2019 2019 True)
       = fst (process_data archive \<lparr>league = ''epl'', all_data = [season_2019]\<rparr>
                (log_request ''https://www.football-data.co.uk/mmz4281/1920/E0.csv'' world0)
                True)
   \<and> all_data (fst (collect_calls archive (init ''epl'') world0
                       [(2019, 2019, False), (2030, 2030, False), (2020, 2019, False),
                        (2019, 2019, True)]))
       = [season_2019, season_2019]"
    using C10_all_data_grows [of archive "init ''epl''" world0 2019 2019 True
        "[(2019, 2019, False), (2030, 2030, False), (2020, 2019, False), (2019, 2019, True)]"]
    by (simp add: init_def run_archive)
  define w1 where "w1 = snd (snd (fetch_loop archive ''epl'' [2019] [season_2019] world0))"
  have second: "fst (collect_data archive ?used world0 2019 2019 False)
                = fst (process_data archive
                         \<lparr>league = ''epl'', all_data = [season_2019, season_2019]\<rparr> w1 False)"
    unfolding w1_def by (simp add: fst_collect_data run_archive)
  obtain out where out: "fst (collect_data archive ?used world0 2019 2019 False) = Inr out"
    using returned_twice [of w1 False] second by auto
  have fetched: "all_data ?used @ fetched archive (league ?used) [2019..2019]
                 = [season_2019, season_2019]"
    by (simp add: run_archive)
  from C10_all_data_grows [of archive ?used world0 2019 2019 False "[]"] out
  have "len out = sum_list (map len (all_data ?used @ fetched archive (league ?used) [2019..2019]))
        \<and> map (\<lambda>r. r(''game_id'' := NA)) (rows out)
          = map (\<lambda>r. derived_row archive (league ?used) (r, NA))
              (concat (map (\<lambda>f. map (restrict_row (columns f)) (rows f))
                         (all_data ?used @ fetched archive (league ?used) [2019..2019])))"
    by blast
  then have "len out = 4
          \<and> map (\<lambda>r. r(''game_id'' := NA)) (rows out)
            = map (\<lambda>r. derived_row archive ''epl'' (r, NA))
                [restrict_row (columns season_2019) match1,
                 restrict_row (columns season_2019) match2,
                 restrict_row (columns season_2019) match1,
                 restrict_row (columns season_2019) match2]"
    unfolding fetched by (simp add: len_def) (simp add: season_2019_def)
  with out first show ?thesis
    by blast
qed

section \<open>The statistics in closed form\<close>

lemma compute_team_statistics_closed:
  "compute_team_statistics df =
     (if statistics_input df then Inr (statistics_rows df)
      else Inl (if ''HomeTeam'' \<notin> set (columns df) then KeyError ''HomeTeam''
                else if \<not> list_all (\<lambda>r. is_text (r ''HomeTeam'')) (rows df) then TypeError
                else if ''FTR'' \<notin> set (columns df) then KeyError ''FTR''
                else if ''FTHG'' \<notin> set (columns df) then KeyError ''FTHG''
                else if \<not> list_all (\<lambda>r. is_number (r ''FTHG'')) (rows df) then TypeError
                else if ''AwayTeam'' \<notin> set (columns df) then KeyError ''AwayTeam''
                else if \<not> list_all (\<lambda>r. is_text (r ''AwayTeam'')) (rows df) then TypeError
                else if ''FTAG'' \<notin> set (columns df) then KeyError ''FTAG''
                else TypeError))"
  by (auto simp: compute_team_statistics_def statistics_input_def statistics_rows_def
      getitem_def typed_def and_then_def list_all_iff Let_def)

lemma compute_returns:
  "compute_team_statistics df = Inr stats \<Longrightarrow> statistics_input df \<and> stats = statistics_rows df"
  by (simp add: compute_team_statistics_closed split: if_splits)

lemma set_texts: "set (texts xs) = {t. Str t \<in> set xs}"
  by (induction xs rule: texts.induct) auto

lemma set_group_keys:
  "set (group_keys key df) = {t. \<exists>r \<in> set (rows df). r key = Str t}"
proof -
  have "Str t \<in> (\<lambda>r. r key) ` set (rows df) \<longleftrightarrow> (\<exists>r \<in> set (rows df). r key = Str t)" for t
    by (auto simp: image_iff) metis
  then show ?thesis
    by (simp add: group_keys_def set_texts)
qed

lemma group_rows_absent:
  "t \<notin> set (group_keys key df) \<Longrightarrow> group_rows key t df = []"
  by (auto simp: set_group_keys group_rows_def filter_empty_conv)

lemma map_of_keys:
  "map_of (map (\<lambda>t. (t, f t)) ks) t = (if t \<in> set ks then Some (f t) else None)"
  by (induction ks) auto

lemma side_home:
  "side (home_stats df) t =
     (length (group_rows ''HomeTeam'' t df),
      count_eq ''FTR'' ''H'' (group_rows ''HomeTeam'' t df),
      count_eq ''FTR'' ''D'' (group_rows ''HomeTeam'' t df),
      sum_col ''FTHG'' (group_rows ''HomeTeam'' t df))"
proof (cases "t \<in> set (group_keys ''HomeTeam'' df)")
  case True
  then show ?thesis
    by (simp add: side_def home_stats_def map_of_keys Let_def)
next
  case False
  then have "group_rows ''HomeTeam'' t df = []"
    by (rule group_rows_absent)
  with False show ?thesis
    by (simp add: side_def home_stats_def map_of_keys Let_def count_eq_def sum_col_def)
qed

lemma side_away:
  "side (away_stats df) t =
     (length (group_rows ''AwayTeam'' t df),
      count_eq ''FTR'' ''A'' (group_rows ''AwayTeam'' t df),
      count_eq ''FTR'' ''D'' (group_rows ''AwayTeam'' t df),
      sum_col ''FTAG'' (group_rows ''AwayTeam'' t df))"
proof (cases "t \<in> set (group_keys ''AwayTeam'' df)")
  case True
  then show ?thesis
    by (simp add: side_def away_stats_def map_of_keys Let_def)
next
  case False
  then have "group_rows ''AwayTeam'' t df = []"
    by (rule group_rows_absent)
  with False show ?thesis
    by (simp add: side_def away_stats_def map_of_keys Let_def count_eq_def sum_col_def)
qed

lemma keys_home: "map fst (home_stats df) = group_keys ''HomeTeam'' df"
  by (simp add: home_stats_def comp_def Let_def)

lemma keys_away: "map fst (away_stats df) = group_keys ''AwayTeam'' df"
  by (simp add: away_stats_def comp_def Let_def)

lemma team_stats_row [simp]: "Team (stats_row t h a) = t"
  by (cases h, cases a) (simp add: stats_row_def Let_def)

lemma teams_statistics_rows:
  "map Team (statistics_rows df)
   = sort (remdups (group_keys ''HomeTeam'' df @ group_keys ''AwayTeam'' df))"
  by (simp add: statistics_rows_def keys_home keys_away comp_def)

lemma in_statistics_rows:
  "s \<in> set (statistics_rows df) \<Longrightarrow>
   s = stats_row (Team s) (side (home_stats df) (Team s)) (side (away_stats df) (Team s))"
  by (auto simp: statistics_rows_def)

lemma count_eq_le: "count_eq c v g \<le> length g"
  by (simp add: count_eq_def)

lemma stats_row_fields:
  "HomeGames (stats_row t (hg, hw, hd', hq) (ag, aw, ad, aq)) = hg"
  "HomeWins (stats_row t (hg, hw, hd', hq) (ag, aw, ad, aq)) = hw"
  "HomeDraws (stats_row t (hg, hw, hd', hq) (ag, aw, ad, aq)) = hd'"
  "HomeGoals (stats_row t (hg, hw, hd', hq) (ag, aw, ad, aq)) = hq"
  "AwayGames (stats_row t (hg, hw, hd', hq) (ag, aw, ad, aq)) = ag"
  "AwayWins (stats_row t (hg, hw, hd', hq) (ag, aw, ad, aq)) = aw"
  "AwayDraws (stats_row t (hg, hw, hd', hq) (ag, aw, ad, aq)) = ad"
  "AwayGoals (stats_row t (hg, hw, hd', hq) (ag, aw, ad, aq)) = aq"
  "TotalGames (stats_row t (hg, hw, hd', hq) (ag, aw, ad, aq)) = hg + ag"
  "TotalWins (stats_row t (hg, hw, hd', hq) (ag, aw, ad, aq)) = hw + aw"
  "TotalDraws (stats_row t (hg, hw, hd', hq) (ag, aw, ad, aq)) = hd' + ad"
  "TotalGoals (stats_row t (hg, hw, hd', hq) (ag, aw, ad, aq)) = hq + aq"
  by (simp_all add: stats_row_def Let_def)

lemma stats_row_ratios:
  "WinRatio (stats_row t (hg, hw, hd', hq) (ag, aw, ad, aq))
     = true_div (of_nat (hw + aw)) (of_nat (hg + ag))"
  "DrawRatio (stats_row t (hg, hw, hd', hq) (ag, aw, ad, aq))
     = true_div (of_nat (hd' + ad)) (of_nat (hg + ag))"
  "HomeWinRatio (stats_row t (hg, hw, hd', hq) (ag, aw, ad, aq)) = true_div (of_nat hw) (of_nat hg)"
  "AwayWinRatio (stats_row t (hg, hw, hd', hq) (ag, aw, ad, aq)) = true_div (of_nat aw) (of_nat ag)"
  "HomeGoalRatio (stats_row t (hg, hw, hd', hq) (ag, aw, ad, aq)) = true_div hq (of_nat hg)"
  "AwayGoalRatio (stats_row t (hg, hw, hd', hq) (ag, aw, ad, aq)) = true_div aq (of_nat ag)"
  "TotalGoalRatio (stats_row t (hg, hw, hd', hq) (ag, aw, ad, aq))
     = true_div (hq + aq) (of_nat (hg + ag))"
  by (simp_all add: stats_row_def Let_def)

text \<open>A row of the statistics written out: every count is a count over a group.\<close>

lemma statistics_row_closed:
  assumes "s \<in> set (statistics_rows df)"
  shows "s = stats_row (Team s)
               (length (group_rows ''HomeTeam'' (Team s) df),
                count_eq ''FTR'' ''H'' (group_rows ''HomeTeam'' (Team s) df),
                count_eq ''FTR'' ''D'' (group_rows ''HomeTeam'' (Team s) df),
                sum_col ''FTHG'' (group_rows ''HomeTeam'' (Team s) df))
               (length (group_rows ''AwayTeam'' (Team s) df),
                count_eq ''FTR'' ''A'' (group_rows ''AwayTeam'' (Team s) df),
                count_eq ''FTR'' ''D'' (group_rows ''AwayTeam'' (Team s) df),
                sum_col ''FTAG'' (group_rows ''AwayTeam'' (Team s) df))"
  using in_statistics_rows [OF assms] by (simp add: side_home side_away)

lemma in_unit_true_div:
  "a \<le> b \<Longrightarrow> b \<noteq> 0 \<Longrightarrow> in_unit (true_div (of_nat a) (of_nat b))"
  by (simp add: true_div_def divide_le_eq_1)

section \<open>The statistics of the small archive\<close>

lemma statistics_2019:
  "compute_team_statistics season_2019 = Inr [arsenal_2019, burnley_2019, unmapped_2019]"
  by code_simp

lemma statistics_input_2019: "statistics_input season_2019"
  by (simp add: statistics_input_def season_2019_def match1_def match2_def)

lemma goals_of_empty_group: "sum_col c [] = 0"
  by (simp add: sum_col_def)

section \<open>One row per team\<close>

text \<open>
  C7. The statistics have exactly one row for each team name that occurs as a home or
  as an away team. In each row the home counts are the counts over the rows of the
  table in which the team is the home team, and likewise away, so a team that never
  plays at home (away) has home (away) games, wins, draws and goals equal to zero; and
  each total is the sum of the home and the away value.
\<close>

theorem C7_one_row_per_team:
  assumes "compute_team_statistics df = Inr stats"
  shows "distinct (map Team stats)
    \<and> set (map Team stats)
        = {t. \<exists>r \<in> set (rows df). r ''HomeTeam'' = Str t \<or> r ''AwayTeam'' = Str t}
    \<and> (\<forall>s \<in> set stats.
          HomeGames s = length (filter (\<lambda>r. r ''HomeTeam'' = Str (Team s)) (rows df))
        \<and> AwayGames s = length (filter (\<lambda>r. r ''AwayTeam'' = Str (Team s)) (rows df))
        \<and> ((\<forall>r \<in> set (rows df). r ''HomeTeam'' \<noteq> Str (Team s)) \<longrightarrow>
             HomeGames s = 0 \<and> HomeWins s = 0 \<and> HomeDraws s = 0 \<and> HomeGoals s = 0)
        \<and> ((\<forall>r \<in> set (rows df). r ''AwayTeam'' \<noteq> Str (Team s)) \<longrightarrow>
             AwayGames s = 0 \<and> AwayWins s = 0 \<and> AwayDraws s = 0 \<and> AwayGoals s = 0)
        \<and> TotalGames s = HomeGames s + AwayGames s
        \<and> TotalWins s = HomeWins s + AwayWins s
        \<and> TotalDraws s = HomeDraws s + AwayDraws s
        \<and> TotalGoals s = HomeGoals s + AwayGoals s)"
proof -
  have stats: "stats = statistics_rows df"
    using assms by (simp add: compute_returns)
  have teams: "map Team stats
               = sort (remdups (group_keys ''HomeTeam'' df @ group_keys ''AwayTeam'' df))"
    by (simp add: stats teams_statistics_rows)
  have d: "distinct (map Team stats)"
    by (simp add: teams)
  have "set (map Team stats)
        = {t. \<exists>r \<in> set (rows df). r ''HomeTeam'' = Str t \<or> r ''AwayTeam'' = Str t}"
    unfolding teams by (auto simp: set_group_keys)
  moreover have "HomeGames s = length (filter (\<lambda>r. r ''HomeTeam'' = Str (Team s)) (rows df))
        \<and> AwayGames s = length (filter (\<lambda>r. r ''AwayTeam'' = Str (Team s)) (rows df))
        \<and> ((\<forall>r \<in> set (rows df). r ''HomeTeam'' \<noteq> Str (Team s)) \<longrightarrow>
             HomeGames s = 0 \<and> HomeWins s = 0 \<and> HomeDraws s = 0 \<and> HomeGoals s = 0)
        \<and> ((\<forall>r \<in> set (rows df). r ''AwayTeam'' \<noteq> Str (Team s)) \<longrightarrow>
             AwayGames s = 0 \<and> AwayWins s = 0 \<and> AwayDraws s = 0 \<and> AwayGoals s = 0)
        \<and> TotalGames s = HomeGames s + AwayGames s
        \<and> TotalWins s = HomeWins s + AwayWins s
        \<and> TotalDraws s = HomeDraws s + AwayDraws s
        \<and> TotalGoals s = HomeGoals s + AwayGoals s"
    if "s \<in> set stats" for s
  proof -
    let ?h = "group_rows ''HomeTeam'' (Team s) df"
    let ?a = "group_rows ''AwayTeam'' (Team s) df"
    note row = statistics_row_closed [OF that [unfolded stats]]
    have f: "HomeGames s = length ?h" "HomeWins s = count_eq ''FTR'' ''H'' ?h"
      "HomeDraws s = count_eq ''FTR'' ''D'' ?h" "HomeGoals s = sum_col ''FTHG'' ?h"
      "AwayGames s = length ?a" "AwayWins s = count_eq ''FTR'' ''A'' ?a"
      "AwayDraws s = count_eq ''FTR'' ''D'' ?a" "AwayGoals s = sum_col ''FTAG'' ?a"
      "TotalGames s = length ?h + length ?a"
      "TotalWins s = count_eq ''FTR'' ''H'' ?h + count_eq ''FTR'' ''A'' ?a"
      "TotalDraws s = count_eq ''FTR'' ''D'' ?h + count_eq ''FTR'' ''D'' ?a"
      "TotalGoals s = sum_col ''FTHG'' ?h + sum_col ''FTAG'' ?a"
      by (subst row, simp only: stats_row_fields)+
    have h0: "?h = []" if "\<forall>r \<in> set (rows df). r ''HomeTeam'' \<noteq> Str (Team s)"
      using that by (simp add: group_rows_def filter_empty_conv)
    have a0: "?a = []" if "\<forall>r \<in> set (rows df). r ''AwayTeam'' \<noteq> Str (Team s)"
      using that by (simp add: group_rows_def filter_empty_conv)
    show ?thesis
      using h0 a0 by (auto simp: f group_rows_def count_eq_def sum_col_def)
  qed
  ultimately show ?thesis
    using d by blast
qed

theorem C7_witness:
  "\<exists>stats s.
     compute_team_statistics season_2019 = Inr stats
     \<and> map Team stats = [''Arsenal'', ''Burnley'', ''Unmapped FC'']
     \<and> distinct (map Team stats)
     \<and> s \<in> set stats \<and> Team s = ''Burnley''
     \<and> HomeGames s = 0 \<and> HomeWins s = 0 \<and> HomeDraws s = 0 \<and> HomeGoals s = 0
     \<and> AwayGames s = 1 \<and> TotalGames s = HomeGames s + AwayGames s
     \<and> TotalGoals s = HomeGoals s + AwayGoals s"
proof -
  let ?stats = "[arsenal_2019, burnley_2019, unmapped_2019]"
  note c7 = C7_one_row_per_team [OF statistics_2019]
  have s: "burnley_2019 \<in> set ?stats" and t: "Team burnley_2019 = ''Burnley''"
    by (simp_all add: burnley_2019_def)
  have never: "\<forall>r \<in> set (rows season_2019). r ''HomeTeam'' \<noteq> Str (Team burnley_2019)"
    by (simp add: season_2019_def match1_def match2_def t)
  from c7 have d: "distinct (map Team ?stats)"
    by blast
  from c7 s never
  have "HomeGames burnley_2019 = 0 \<and> HomeWins burnley_2019 = 0 \<and> HomeDraws burnley_2019 = 0
        \<and> HomeGoals burnley_2019 = 0
        \<and> TotalGames burnley_2019 = HomeGames burnley_2019 + AwayGames burnley_2019
        \<and> TotalGoals burnley_2019 = HomeGoals burnley_2019 + AwayGoals burnley_2019"
    by blast
  moreover have "map Team ?stats = [''Arsenal'', ''Burnley'', ''Unmapped FC'']"
    and "AwayGames burnley_2019 = 1"
    by (simp_all add: arsenal_2019_def burnley_2019_def unmapped_2019_def)
  ultimately show ?thesis
    using statistics_2019 d s t
    by - (rule exI [of _ ?stats], rule exI [of _ burnley_2019], simp)
qed

section \<open>Bounds of the ratios\<close>

text \<open>
  C3 (as amended). In every row of the statistics the win and draw ratios (\<open>WinRatio\<close>,
  \<open>DrawRatio\<close>, \<open>HomeWinRatio\<close>, \<open>AwayWinRatio\<close>) are numbers between 0 and 1 whenever
  their denominator is not zero. The three goal ratios are then the goals divided by the
  games, goals per game, which 1 does not bound.
\<close>

theorem C3_win_and_draw_ratios_in_unit:
  assumes "compute_team_statistics df = Inr stats" and "s \<in> set stats"
  shows "(TotalGames s \<noteq> 0 \<longrightarrow>
            in_unit (WinRatio s) \<and> in_unit (DrawRatio s)
            \<and> TotalGoalRatio s = Fin (TotalGoals s / of_nat (TotalGames s)))
       \<and> (HomeGames s \<noteq> 0 \<longrightarrow>
            in_unit (HomeWinRatio s)
            \<and> HomeGoalRatio s = Fin (HomeGoals s / of_nat (HomeGames s)))
       \<and> (AwayGames s \<noteq> 0 \<longrightarrow>
            in_unit (AwayWinRatio s)
            \<and> AwayGoalRatio s = Fin (AwayGoals s / of_nat (AwayGames s)))"
proof -
  let ?h = "group_rows ''HomeTeam'' (Team s) df"
  let ?a = "group_rows ''AwayTeam'' (Team s) df"
  have "s \<in> set (statistics_rows df)"
    using compute_returns [OF assms(1)] assms(2) by simp
  note row = statistics_row_closed [OF this]
  have f: "HomeGames s = length ?h" "AwayGames s = length ?a"
    "TotalGames s = length ?h + length ?a"
    "HomeGoals s = sum_col ''FTHG'' ?h" "AwayGoals s = sum_col ''FTAG'' ?a"
    "TotalGoals s = sum_col ''FTHG'' ?h + sum_col ''FTAG'' ?a"
    by (subst row, simp only: stats_row_fields)+
  have r: "WinRatio s = true_div (of_nat (count_eq ''FTR'' ''H'' ?h + count_eq ''FTR'' ''A'' ?a))
                          (of_nat (length ?h + length ?a))"
    "DrawRatio s = true_div (of_nat (count_eq ''FTR'' ''D'' ?h + count_eq ''FTR'' ''D'' ?a))
                          (of_nat (length ?h + length ?a))"
    "HomeWinRatio s = true_div (of_nat (count_eq ''FTR'' ''H'' ?h)) (of_nat (length ?h))"
    "AwayWinRatio s = true_div (of_nat (count_eq ''FTR'' ''A'' ?a)) (of_nat (length ?a))"
    "HomeGoalRatio s = true_div (sum_col ''FTHG'' ?h) (of_nat (length ?h))"
    "AwayGoalRatio s = true_div (sum_col ''FTAG'' ?a) (of_nat (length ?a))"
    "TotalGoalRatio s = true_div (sum_col ''FTHG'' ?h + sum_col ''FTAG'' ?a)
                          (of_nat (length ?h + length ?a))"
    by (subst row, simp only: stats_row_ratios)+
  have wins: "count_eq ''FTR'' ''H'' ?h + count_eq ''FTR'' ''A'' ?a \<le> length ?h + length ?a"
    and draws: "count_eq ''FTR'' ''D'' ?h + count_eq ''FTR'' ''D'' ?a \<le> length ?h + length ?a"
    using count_eq_le [of "''FTR''" _ ?h] count_eq_le [of "''FTR''" _ ?a]
    by (simp_all add: add_mono)
  have total: "in_unit (WinRatio s) \<and> in_unit (DrawRatio s)
               \<and> TotalGoalRatio s = Fin (TotalGoals s / of_nat (TotalGames s))"
    if nz: "TotalGames s \<noteq> 0"
  proof -
    from nz have n: "length ?h + length ?a \<noteq> 0"
      by (simp add: f)
    have "in_unit (WinRatio s)"
      unfolding r(1) using wins n by (rule in_unit_true_div)
    moreover have "in_unit (DrawRatio s)"
      unfolding r(2) using draws n by (rule in_unit_true_div)
    moreover have "rat_of_nat (length ?h + length ?a) \<noteq> 0"
      using n by (simp only: of_nat_eq_0_iff) simp
    then have "TotalGoalRatio s = Fin (TotalGoals s / of_nat (TotalGames s))"
      by (simp only: r(7) f true_div_def if_False)
    ultimately show ?thesis
      by simp
  qed
  have home: "in_unit (HomeWinRatio s)
              \<and> HomeGoalRatio s = Fin (HomeGoals s / of_nat (HomeGames s))"
    if nz: "HomeGames s \<noteq> 0"
  proof -
    from nz have n: "length ?h \<noteq> 0"
      by (simp add: f)
    have "in_unit (HomeWinRatio s)"
      unfolding r(3) using count_eq_le n by (rule in_unit_true_div)
    moreover have "rat_of_nat (length ?h) \<noteq> 0"
      using n by (simp only: of_nat_eq_0_iff) simp
    then have "HomeGoalRatio s = Fin (HomeGoals s / of_nat (HomeGames s))"
      by (simp only: r(5) f true_div_def if_False)
    ultimately show ?thesis
      by simp
  qed
  have away: "in_unit (AwayWinRatio s)
              \<and> AwayGoalRatio s = Fin (AwayGoals s / of_nat (AwayGames s))"
    if nz: "AwayGames s \<noteq> 0"
  proof -
    from nz have n: "length ?a \<noteq> 0"
      by (simp add: f)
    have "in_unit (AwayWinRatio s)"
      unfolding r(4) using count_eq_le n by (rule in_unit_true_div)
    moreover have "rat_of_nat (length ?a) \<noteq> 0"
      using n by (simp only: of_nat_eq_0_iff) simp
    then have "AwayGoalRatio s = Fin (AwayGoals s / of_nat (AwayGames s))"
      by (simp only: r(6) f true_div_def if_False)
    ultimately show ?thesis
      by simp
  qed
  from total home away show ?thesis
    by blast
qed


theorem C3_witness:
  "compute_team_statistics season_2019 = Inr [arsenal_2019, burnley_2019, unmapped_2019]
   \<and> arsenal_2019 \<in> set [arsenal_2019, burnley_2019, unmapped_2019]
   \<and> TotalGames arsenal_2019 \<noteq> 0 \<and> HomeGames arsenal_2019 \<noteq> 0
   \<and> AwayGames arsenal_2019 \<noteq> 0
   \<and> in_unit (WinRatio arsenal_2019) \<and> in_unit (DrawRatio arsenal_2019)
   \<and> in_unit (HomeWinRatio arsenal_2019) \<and> in_unit (AwayWinRatio arsenal_2019)
   \<and> HomeGoalRatio arsenal_2019 = Fin (HomeGoals arsenal_2019 / of_nat (HomeGames arsenal_2019))"
proof -
  have s: "arsenal_2019 \<in> set [arsenal_2019, burnley_2019, unmapped_2019]"
    by simp
  have nz: "TotalGames arsenal_2019 \<noteq> 0" "HomeGames arsenal_2019 \<noteq> 0"
    "AwayGames arsenal_2019 \<noteq> 0"
    by (simp_all add: arsenal_2019_def)
  from C3_win_and_draw_ratios_in_unit [OF statistics_2019 s] nz
  have "in_unit (WinRatio arsenal_2019) \<and> in_unit (DrawRatio arsenal_2019)
        \<and> in_unit (HomeWinRatio arsenal_2019) \<and> in_unit (AwayWinRatio arsenal_2019)
        \<and> HomeGoalRatio arsenal_2019
            = Fin (HomeGoals arsenal_2019 / of_nat (HomeGames arsenal_2019))"
    by blast
  with statistics_2019 s nz show ?thesis
    by blast
qed

text \<open>
  C3 as stated fails for the goal ratios: a team with two goals in its one home game has
  a \<open>HomeGoalRatio\<close> of 2, with a denominator that is not zero.
\<close>

theorem C3_counterexample:
  "compute_team_statistics season_2019 = Inr [arsenal_2019, burnley_2019, unmapped_2019]
   \<and> HomeGames arsenal_2019 = 1 \<and> HomeGoals arsenal_2019 = 2
   \<and> HomeGoalRatio arsenal_2019 = Fin 2
   \<and> \<not> in_unit (HomeGoalRatio arsenal_2019)"
  using statistics_2019 by (simp add: arsenal_2019_def)

section \<open>Teams without home or away games\<close>

text \<open>
  C4. Dividing by a game count of zero raises nothing. On a table with the five columns
  read, texts in the team columns and numbers in the goals columns the computation
  returns the statistics; the only exceptions on another table are a missing column and
  a cell of the wrong type. In every row returned, a team with no home game has a
  missing (\<open>NaN\<close>) \<open>HomeWinRatio\<close> and \<open>HomeGoalRatio\<close>, and a team with no away game a
  missing \<open>AwayWinRatio\<close> and \<open>AwayGoalRatio\<close>.
\<close>

theorem C4_zero_games_give_missing_ratio:
  "(statistics_input df \<longrightarrow> \<not> isl (compute_team_statistics df))
   \<and> (\<forall>err. compute_team_statistics df = Inl err \<longrightarrow>
         err = TypeError \<or> (\<exists>c. err = KeyError c))
   \<and> (\<forall>stats. compute_team_statistics df = Inr stats \<longrightarrow>
         (\<forall>s \<in> set stats.
            (HomeGames s = 0 \<longrightarrow> HomeWinRatio s = NaN \<and> HomeGoalRatio s = NaN)
          \<and> (AwayGames s = 0 \<longrightarrow> AwayWinRatio s = NaN \<and> AwayGoalRatio s = NaN)))"
proof -
  have ok: "statistics_input df \<longrightarrow> \<not> isl (compute_team_statistics df)"
    by (simp add: compute_team_statistics_closed)
  have errs: "err = TypeError \<or> (\<exists>c. err = KeyError c)"
    if "compute_team_statistics df = Inl err" for err
    using that by (auto simp: compute_team_statistics_closed split: if_splits)
  have rows: "(HomeGames s = 0 \<longrightarrow> HomeWinRatio s = NaN \<and> HomeGoalRatio s = NaN)
            \<and> (AwayGames s = 0 \<longrightarrow> AwayWinRatio s = NaN \<and> AwayGoalRatio s = NaN)"
    if c: "compute_team_statistics df = Inr stats" and s: "s \<in> set stats" for stats s
  proof -
    let ?h = "group_rows ''HomeTeam'' (Team s) df"
    let ?a = "group_rows ''AwayTeam'' (Team s) df"
    have "s \<in> set (statistics_rows df)"
      using compute_returns [OF c] s by simp
    note row = statistics_row_closed [OF this]
    have f: "HomeGames s = length ?h" "AwayGames s = length ?a"
      by (subst row, simp only: stats_row_fields)+
    have r: "HomeWinRatio s = true_div (of_nat (count_eq ''FTR'' ''H'' ?h)) (of_nat (length ?h))"
      "AwayWinRatio s = true_div (of_nat (count_eq ''FTR'' ''A'' ?a)) (of_nat (length ?a))"
      "HomeGoalRatio s = true_div (sum_col ''FTHG'' ?h) (of_nat (length ?h))"
      "AwayGoalRatio s = true_div (sum_col ''FTAG'' ?a) (of_nat (length ?a))"
      by (subst row, simp only: stats_row_ratios)+
    have home: "HomeWinRatio s = NaN \<and> HomeGoalRatio s = NaN" if "HomeGames s = 0"
    proof -
      from that have "?h = []"
        by (simp add: f)
      then show ?thesis
        by (simp add: r count_eq_def goals_of_empty_group true_div_def)
    qed
    have away: "AwayWinRatio s = NaN \<and> AwayGoalRatio s = NaN" if "AwayGames s = 0"
    proof -
      from that have "?a = []"
        by (simp add: f)
      then show ?thesis
        by (simp add: r count_eq_def goals_of_empty_group true_div_def)
    qed
    from home away show ?thesis
      by blast
  qed
  from ok errs rows show ?thesis
    by blast
qed

theorem C4_witness:
  "statistics_input season_2019
   \<and> compute_team_statistics season_2019 = Inr [arsenal_2019, burnley_2019, unmapped_2019]
   \<and> \<not> isl (compute_team_statistics season_2019)
   \<and> HomeGames burnley_2019 = 0
   \<and> HomeWinRatio burnley_2019 = NaN \<and> HomeGoalRatio burnley_2019 = NaN
   \<and> AwayGames unmapped_2019 = 0
   \<and> AwayWinRatio unmapped_2019 = NaN \<and> AwayGoalRatio unmapped_2019 = NaN"
proof -
  note c4 = C4_zero_games_give_missing_ratio [of season_2019]
  have b: "burnley_2019 \<in> set [arsenal_2019, burnley_2019, unmapped_2019]"
    and u: "unmapped_2019 \<in> set [arsenal_2019, burnley_2019, unmapped_2019]"
    by simp_all
  have z: "HomeGames burnley_2019 = 0" "AwayGames unmapped_2019 = 0"
    by (simp_all add: burnley_2019_def unmapped_2019_def)
  from c4 statistics_input_2019 have "\<not> isl (compute_team_statistics season_2019)"
    by blast
  moreover from c4 statistics_2019 b z(1)
  have "HomeWinRatio burnley_2019 = NaN \<and> HomeGoalRatio burnley_2019 = NaN"
    by blast
  moreover from c4 statistics_2019 u z(2)
  have "AwayWinRatio unmapped_2019 = NaN \<and> AwayGoalRatio unmapped_2019 = NaN"
    by blast
  ultimately show ?thesis
    using statistics_input_2019 statistics_2019 z by blast
qed

end
